theory Spec2Isabelle
  imports Main "HOL-Library.Word"
begin

section \<open>The OZJ / OZT loader (src/ozj-loader-node.ts)\<close>

subsection \<open>Buffers, errors and observable events\<close>

type_synonym byte = "8 word"
type_synonym bytes = "byte list"

text \<open>
  The loader throws plain \<open>Error\<close> objects that differ only in their message, so
  \<open>Error\<close> carries the message. \<open>RangeError\<close> is what a \<open>DataView\<close> accessor or a
  typed-array constructor throws, \<open>TypeError\<close> what a call of a non-function throws.
\<close>

datatype error = Error string | RangeError | TypeError

text \<open>String conversion of a caught error inside a template literal.\<close>

fun error_to_string :: "error \<Rightarrow> string" where
  "error_to_string (Error m) = ''Error: '' @ m"
| "error_to_string RangeError = ''RangeError''"
| "error_to_string TypeError = ''TypeError''"

text \<open>
  What a run does besides returning: the byte offsets of the input buffer it reads, the
  buffers it hands to the external image codecs, the files it reads, the console lines it
  prints and the textures it disposes of (by name).
\<close>

datatype event =
    Read nat
  | SharpToBuffer bytes
  | SharpMetadata bytes
  | SharpPng bytes
  | DecodeTga bytes
  | ReadFile string
  | ConsoleError string
  | ConsoleWarn string
  | Dispose string

type_synonym 'a run = "event list \<times> (error + 'a)"

text \<open>Sequencing: a throw stops the run, the events of both parts are kept in order.\<close>

definition bind_run :: "'a run \<Rightarrow> ('a \<Rightarrow> 'b run) \<Rightarrow> 'b run" where
  "bind_run m f =
     (case snd m of
        Inl e \<Rightarrow> (fst m, Inl e)
      | Inr x \<Rightarrow> (fst m @ fst (f x), snd (f x)))"

text \<open>The result object \<open>{ buffer, width, height }\<close>.\<close>

record image =
  buffer :: bytes
  width :: int
  height :: int

text \<open>
  The external libraries and builtins as the repository uses them, taken as parameters:
  \<open>sharp(b).ensureAlpha().raw().toBuffer()\<close>, \<open>sharp(b).metadata()\<close> and
  \<open>sharp(raw, {raw: {width, height, channels: 4}}).png().toBuffer()\<close>, each of which
  may reject; \<open>decodeTga\<close> of the TGA codec; \<open>Buffer.toString('base64')\<close>; and
  \<open>String.prototype.toLowerCase\<close>, which lowers every cased letter of a string, not
  only the ASCII ones, and is therefore not written out here.
\<close>

record codec =
  sharp_raw :: "bytes \<Rightarrow> error + bytes"
  sharp_metadata :: "bytes \<Rightarrow> error + int \<times> int"
  sharp_png :: "image \<Rightarrow> error + bytes"
  decodeTga :: "bytes \<Rightarrow> error + image"
  base64 :: "bytes \<Rightarrow> string"
  toLowerCase :: "string \<Rightarrow> string"

subsection \<open>Reading the buffer\<close>

text \<open>\<open>u8[i]\<close> on a \<open>Uint8Array\<close>: \<open>undefined\<close> (here \<open>None\<close>) outside the array.\<close>

definition u8_get :: "bytes \<Rightarrow> nat \<Rightarrow> byte option" where
  "u8_get u8 i = (if i < length u8 then Some (u8 ! i) else None)"

text \<open>Storing into a \<open>Uint8Array\<close>: \<open>undefined\<close> is stored as 0, a write outside is dropped.\<close>

definition to_u8 :: "byte option \<Rightarrow> byte" where
  "to_u8 v = (case v of None \<Rightarrow> 0 | Some b \<Rightarrow> b)"

definition u8_set :: "bytes \<Rightarrow> int \<Rightarrow> byte \<Rightarrow> bytes" where
  "u8_set a i v = (if 0 \<le> i \<and> i < int (length a) then a[nat i := v] else a)"

text \<open>\<open>view.getUint8(off)\<close> and \<open>view.getInt16(off, true)\<close> (little endian, two's complement).\<close>

definition getUint8 :: "bytes \<Rightarrow> nat \<Rightarrow> int run" where
  "getUint8 b off =
     (if off + 1 \<le> length b then ([Read off], Inr (uint (b ! off)))
      else ([], Inl RangeError))"

definition int16_le :: "byte \<Rightarrow> byte \<Rightarrow> int" where
  "int16_le lo hi =
     (let v = uint lo + 256 * uint hi in if 32768 \<le> v then v - 65536 else v)"

definition getInt16 :: "bytes \<Rightarrow> nat \<Rightarrow> int run" where
  "getInt16 b off =
     (if off + 2 \<le> length b
      then ([Read off, Read (off + 1)], Inr (int16_le (b ! off) (b ! (off + 1))))
      else ([], Inl RangeError))"

text \<open>\<open>buf.slice(begin)\<close>: a negative \<open>begin\<close> counts from the end.\<close>

definition slice_from :: "bytes \<Rightarrow> int \<Rightarrow> bytes" where
  "slice_from b k =
     (if 0 \<le> k then drop (nat k) b else drop (nat (max 0 (int (length b) + k))) b)"

subsection \<open>The marker scan (lines 12 to 18)\<close>

text \<open>
  The condition of line 14, with the short circuit of \<open>&&\<close>: the second and third bytes
  are read only when the earlier ones match.
\<close>

definition soi_at :: "bytes \<Rightarrow> nat \<Rightarrow> event list \<times> bool" where
  "soi_at u8 i =
     (if u8_get u8 i \<noteq> Some 0xff then ([Read i], False)
      else if u8_get u8 (i + 1) \<noteq> Some 0xd8 then ([Read i, Read (i + 1)], False)
      else ([Read i, Read (i + 1), Read (i + 2)], u8_get u8 (i + 2) = Some 0xff))"

text \<open>
  The loop \<open>for (i = 20; i < Math.min(30, size - 2); i++)\<close> from index \<open>i\<close> on;
  the result is \<open>jpgStart\<close>, \<open>-1\<close> when the loop ends without a match.
\<close>

function scan_from :: "bytes \<Rightarrow> nat \<Rightarrow> event list \<times> int" where
  "scan_from u8 i =
     (if int i < min 30 (int (length u8) - 2) then
        (if snd (soi_at u8 i) then (fst (soi_at u8 i), int i)
         else (fst (soi_at u8 i) @ fst (scan_from u8 (i + 1)), snd (scan_from u8 (i + 1))))
      else ([], - 1))"
  by pat_completeness auto
termination
  by (relation "measure (\<lambda>(u8, i). 30 - i)") auto

declare scan_from.simps [simp del]

subsection \<open>OZJ: the embedded JPEG stream (lines 48 to 65)\<close>

definition ozjToPng :: "codec \<Rightarrow> bytes \<Rightarrow> int \<Rightarrow> image run" where
  "ozjToPng sharp buf jpgStart =
     bind_run (getUint8 buf 17) (\<lambda>b17.
       let isTopDownSort = (b17 \<noteq> 0);
           jpegBuf = slice_from buf jpgStart
       in (case sharp_raw sharp jpegBuf of
             Inl err \<Rightarrow>
               ([SharpToBuffer jpegBuf, ConsoleError (''OZJ decode error: '' @ error_to_string err)],
                Inl (Error (''Failed to decode JPEG: '' @ error_to_string err)))
           | Inr rawBuffer \<Rightarrow>
               (case sharp_metadata sharp jpegBuf of
                  Inl err \<Rightarrow>
                    ([SharpToBuffer jpegBuf, SharpMetadata jpegBuf,
                      ConsoleError (''OZJ decode error: '' @ error_to_string err)],
                     Inl (Error (''Failed to decode JPEG: '' @ error_to_string err)))
                | Inr (w, h) \<Rightarrow>
                    ([SharpToBuffer jpegBuf, SharpMetadata jpegBuf],
                     Inr \<lparr>buffer = rawBuffer, width = w, height = h\<rparr>))))"

subsection \<open>OZT: raw BGRA quads (lines 70 to 93)\<close>

text \<open>
  The loop state is the read log, the running \<open>offset\<close> into the source and the
  destination array \<open>rgba\<close>. \<open>ozt_row\<close> is the inner loop over \<open>x\<close>, \<open>ozt_rows\<close>
  the outer loop over \<open>y\<close>.
\<close>

type_synonym ozt_state = "event list \<times> nat \<times> bytes"

definition ozt_pixel :: "bytes \<Rightarrow> int \<Rightarrow> nat \<Rightarrow> ozt_state \<Rightarrow> ozt_state" where
  "ozt_pixel src dstRowStart x st =
     (case st of (ev, offset, rgba) \<Rightarrow>
        let b = u8_get src offset;
            g = u8_get src (offset + 1);
            r = u8_get src (offset + 2);
            a = u8_get src (offset + 3);
            i = dstRowStart + int x * 4
        in (ev @ [Read offset, Read (offset + 1), Read (offset + 2), Read (offset + 3)],
            offset + 4,
            u8_set (u8_set (u8_set (u8_set rgba i (to_u8 r)) (i + 1) (to_u8 g))
                      (i + 2) (to_u8 b)) (i + 3) (to_u8 a)))"

function ozt_row :: "bytes \<Rightarrow> int \<Rightarrow> int \<Rightarrow> nat \<Rightarrow> ozt_state \<Rightarrow> ozt_state" where
  "ozt_row src nx dstRowStart x st =
     (if int x < nx then ozt_row src nx dstRowStart (x + 1) (ozt_pixel src dstRowStart x st)
      else st)"
  by pat_completeness auto
termination
  by (relation "measure (\<lambda>(src, nx, d, x, st). nat (nx - int x))") auto

declare ozt_row.simps [simp del]

function ozt_rows :: "bytes \<Rightarrow> int \<Rightarrow> int \<Rightarrow> nat \<Rightarrow> ozt_state \<Rightarrow> ozt_state" where
  "ozt_rows src nx ny y st =
     (if int y < ny then ozt_rows src nx ny (y + 1) (ozt_row src nx (int y * nx * 4) 0 st)
      else st)"
  by pat_completeness auto
termination
  by (relation "measure (\<lambda>(src, nx, ny, y, st). nat (ny - int y))") auto

declare ozt_rows.simps [simp del]

definition oztToPng :: "bytes \<Rightarrow> int \<Rightarrow> int \<Rightarrow> image run" where
  "oztToPng src nx ny =
     (if nx * ny * 4 < 0 then ([], Inl RangeError)
      else (case ozt_rows src nx ny 0 ([], 22, replicate (nat (nx * ny * 4)) 0) of
              (ev, offset, rgba) \<Rightarrow> (ev, Inr \<lparr>buffer = rgba, width = nx, height = ny\<rparr>)))"

subsection \<open>The entry point (lines 7 to 43)\<close>

definition convertOzjToBuffer :: "codec \<Rightarrow> bytes \<Rightarrow> image run" where
  "convertOzjToBuffer sharp u8 =
     (let size = int (length u8);
          scan = scan_from u8 20;
          jpgStart = snd scan
      in bind_run (fst scan, Inr ()) (\<lambda>_.
           if jpgStart \<noteq> - 1 then ozjToPng sharp u8 jpgStart
           else if size < 22 then ([], Inl (Error ''File too small for OZT''))
           else
             bind_run (getInt16 u8 16) (\<lambda>nx.
             bind_run (getInt16 u8 18) (\<lambda>ny.
             bind_run (getUint8 u8 20) (\<lambda>depth.
               let expectedSize = 22 + nx * ny * 4;
                   looksLikeOzt =
                     (nx > 0 \<and> ny > 0 \<and> nx \<le> 1024 \<and> ny \<le> 1024 \<and>
                      depth = 32 \<and> expectedSize \<le> size)
               in if \<not> looksLikeOzt then ([], Inl (Error ''Unsupported OZ? file''))
                  else oztToPng u8 nx ny)))))"

subsection \<open>The other exports (lines 98 to 115)\<close>

definition convertTgaToBuffer :: "codec \<Rightarrow> bytes \<Rightarrow> image run" where
  "convertTgaToBuffer lib tgaBuffer = ([DecodeTga tgaBuffer], decodeTga lib tgaBuffer)"

definition to_data_url :: "codec \<Rightarrow> image \<Rightarrow> string run" where
  "to_data_url lib img =
     bind_run ([SharpPng (buffer img)], sharp_png lib img) (\<lambda>pngBuffer.
       ([], Inr (''data:image/png;base64,'' @ base64 lib pngBuffer)))"

definition convertTgaToDataUrl :: "codec \<Rightarrow> bytes \<Rightarrow> string run" where
  "convertTgaToDataUrl lib buf = bind_run (convertTgaToBuffer lib buf) (to_data_url lib)"

definition convertOzjToDataUrl :: "codec \<Rightarrow> bytes \<Rightarrow> string run" where
  "convertOzjToDataUrl lib buf = bind_run (convertOzjToBuffer lib buf) (to_data_url lib)"

section \<open>The mesh-texture binder (src/bmd-to-glb.ts)\<close>

subsection \<open>Strings and paths\<close>

text \<open>
  Strings are sequences of code units. The separators below are ASCII characters, so
  where a string is cut does not depend on how other characters are encoded.
\<close>

definition is_dot :: "char \<Rightarrow> bool" where
  "is_dot c \<longleftrightarrow> c = CHR ''.''"

definition is_slash :: "char \<Rightarrow> bool" where
  "is_slash c \<longleftrightarrow> c = CHR ''/''"

text \<open>The character class \<open>[\\/]\<close>: a slash or a backslash.\<close>

definition is_path_sep :: "char \<Rightarrow> bool" where
  "is_path_sep c \<longleftrightarrow> c = CHR ''/'' \<or> c = CHR 0x5C"

text \<open>\<open>s.split(sep).pop()\<close>: what follows the last separator, all of \<open>s\<close> without one.\<close>

definition last_segment :: "(char \<Rightarrow> bool) \<Rightarrow> string \<Rightarrow> string" where
  "last_segment sep s = rev (takeWhile (\<lambda>c. \<not> sep c) (rev s))"

text \<open>
  \<open>s.replace(/\.[^.]+$/, '')\<close>: the last dot and what follows it are removed when at
  least one character follows that dot.
\<close>

definition strip_ext :: "string \<Rightarrow> string" where
  "strip_ext s =
     (let e = last_segment is_dot s
      in if length e < length s \<and> e \<noteq> [] then take (length s - length e - 1) s else s)"

text \<open>
  \<open>path.basename\<close> and \<open>path.extname\<close> of Node, in their POSIX form: trailing slashes
  are ignored, the last component is what follows the last remaining slash; its extension
  runs from its last dot, and is empty when there is no dot, when the last dot is the
  first character, and for the component \<open>..\<close>.
\<close>

definition path_basename :: "string \<Rightarrow> string" where
  "path_basename p = last_segment is_slash (rev (dropWhile is_slash (rev p)))"

definition path_extname :: "string \<Rightarrow> string" where
  "path_extname p =
     (let c = path_basename p; e = last_segment is_dot c
      in if length e < length c \<and> length c - length e - 1 \<noteq> 0 \<and> c \<noteq> ''..''
         then CHR ''.'' # e else [])"

text \<open>
  \<open>path.basename(p, ext)\<close> as the repository calls it, with \<open>ext = path.extname(p)\<close>,
  which is never the whole component: the suffix \<open>ext\<close> is removed.
\<close>

definition path_basename_ext :: "string \<Rightarrow> string \<Rightarrow> string" where
  "path_basename_ext p ext =
     (let b = path_basename p
      in if ext \<noteq> [] \<and> length ext < length b \<and> drop (length b - length ext) b = ext
         then take (length b - length ext) b else b)"

subsection \<open>Textures, materials and the scene\<close>

text \<open>
  A \<open>THREE.DataTexture\<close>: the decoded image, its name and the data URL stored in
  \<open>image.src\<close>. The fields every texture gets the same value for (colour space,
  wrapping, \<open>flipY\<close>) are left out.
\<close>

record texture =
  tex_name :: string
  tex_image :: image
  tex_src :: string

datatype blending =
  NoBlending | NormalBlending | AdditiveBlending | SubtractiveBlending | MultiplyBlending
  | CustomBlending

record mesh_material =
  mat_map :: "texture option"
  mat_color :: nat
  mat_transparent :: bool
  mat_blending :: blending
  mat_depthWrite :: bool
  mat_needsUpdate :: bool

text \<open>
  The scene that \<open>BMDLoader.load\<close> (src/bmd-loader.ts, absent) returns, as the binder
  uses it. \<open>group.traverse\<close> visits the objects of the scene in a fixed order, so the
  scene is the list of its objects in that order. Each object says whether it is a mesh,
  carries the optional \<open>userData.texturePath\<close> tag and refers to its material, a
  mutable object, by address; the materials themselves are in the store, and nothing
  keeps two meshes from referring to the same one.
\<close>

record object3d =
  isMesh :: bool
  userData_texturePath :: "string option"
  material :: nat

record world =
  materials :: "nat \<Rightarrow> mesh_material"
  trace :: "event list"

definition emit :: "event list \<Rightarrow> world \<Rightarrow> world" where
  "emit evs w = w\<lparr>trace := trace w @ evs\<rparr>"

subsection \<open>Extension equivalence (lines 144 to 151 and 169 to 172)\<close>

definition equivExt_table :: "(string \<times> string list) list" where
  "equivExt_table =
     [(''jpg'', [''ozj'', ''jpeg'']),
      (''jpeg'', [''ozj'', ''jpg'']),
      (''ozj'', [''jpg'', ''jpeg'', ''png'']),
      (''png'', [''ozj'', ''ozt'']),
      (''tga'', [''ozt'', ''png'']),
      (''ozt'', [''tga'', ''png''])]"

text \<open>
  \<open>equivExt\<close> is an object literal, so \<open>equivExt[k]\<close> also finds the properties every
  object inherits from \<open>Object.prototype\<close>; none of them is an array.
\<close>

definition object_prototype_names :: "string list" where
  "object_prototype_names =
     [''constructor'', ''__defineGetter__'', ''__defineSetter__'', ''hasOwnProperty'',
      ''__lookupGetter__'', ''__lookupSetter__'', ''isPrototypeOf'', ''propertyIsEnumerable'',
      ''toString'', ''valueOf'', ''__proto__'', ''toLocaleString'']"

datatype js_value = Undefined | Array "string list" | Inherited

definition equivExt :: "string \<Rightarrow> js_value" where
  "equivExt k =
     (case map_of equivExt_table k of
        Some exts \<Rightarrow> Array exts
      | None \<Rightarrow> if k \<in> set object_prototype_names then Inherited else Undefined)"

text \<open>
  \<open>v?.includes(x)\<close>: \<open>undefined\<close> (falsy) when \<open>v\<close> is \<open>undefined\<close>, membership for an
  array, and a TypeError for any other object, which has no \<open>includes\<close> to call.
\<close>

fun includes_opt :: "js_value \<Rightarrow> string \<Rightarrow> error + bool" where
  "includes_opt Undefined x = Inr False"
| "includes_opt (Array xs) x = Inr (x \<in> set xs)"
| "includes_opt Inherited x = Inl TypeError"

definition extMatch :: "string \<Rightarrow> string \<Rightarrow> error + bool" where
  "extMatch wantedExt fileExt =
     (if wantedExt = fileExt then Inr True
      else (case includes_opt (equivExt wantedExt) fileExt of
              Inl e \<Rightarrow> Inl e
            | Inr True \<Rightarrow> Inr True
            | Inr False \<Rightarrow> includes_opt (equivExt fileExt) wantedExt))"

subsection \<open>\<open>loadAndApplyTexture\<close> (lines 110 to 221)\<close>

text \<open>Lines 111 to 142: read the file, decode it by extension, build the texture.\<close>

definition load_texture :: "(string \<Rightarrow> error + bytes) \<Rightarrow> codec \<Rightarrow> string \<Rightarrow> texture run" where
  "load_texture readFileSync lib filePath =
     (let ext = toLowerCase lib (path_extname filePath)
      in bind_run ([ReadFile filePath], readFileSync filePath) (\<lambda>buffer.
           if ext = ''.tga'' then
             bind_run (convertTgaToBuffer lib buffer) (\<lambda>img.
             bind_run (convertTgaToDataUrl lib buffer) (\<lambda>dataUrl.
               ([], Inr \<lparr>tex_name = path_basename filePath, tex_image = img, tex_src = dataUrl\<rparr>)))
           else if ext = ''.ozj'' \<or> ext = ''.ozt'' then
             bind_run (convertOzjToBuffer lib buffer) (\<lambda>img.
             bind_run (convertOzjToDataUrl lib buffer) (\<lambda>dataUrl.
               ([], Inr \<lparr>tex_name = path_basename filePath, tex_image = img, tex_src = dataUrl\<rparr>)))
           else
             bind_run ([SharpToBuffer buffer], sharp_raw lib buffer) (\<lambda>rawBuffer.
             bind_run ([SharpMetadata buffer], sharp_metadata lib buffer) (\<lambda>metadata.
               let mime = (if ext = ''.jpg'' then ''jpeg'' else ''png'');
                   dataUrl = ''data:image/'' @ mime @ '';base64,'' @ base64 lib buffer
               in ([], Inr \<lparr>tex_name = path_basename filePath,
                             tex_image = \<lparr>buffer = rawBuffer, width = fst metadata,
                                          height = snd metadata\<rparr>,
                             tex_src = dataUrl\<rparr>)))))"

text \<open>Lines 157 to 162.\<close>

definition normalizeWanted :: "codec \<Rightarrow> string \<Rightarrow> string \<times> string" where
  "normalizeWanted lib path =
     (let name = toLowerCase lib (last_segment is_path_sep path);
          ext = last_segment is_dot name;
          base = strip_ext name
      in (base, ext))"

text \<open>
  Lines 164 to 176: the traversal that builds \<open>meshList\<close>. A TypeError of the extension
  test leaves the traversal.
\<close>

record mesh_entry =
  me_mesh :: object3d
  me_path :: string
  me_isMatch :: bool

fun build_meshList ::
  "codec \<Rightarrow> string \<Rightarrow> string \<Rightarrow> object3d list \<Rightarrow> error + mesh_entry list"
where
  "build_meshList lib fileBase fileExt [] = Inr []"
| "build_meshList lib fileBase fileExt (obj # objs) =
     (case userData_texturePath obj of
        None \<Rightarrow> build_meshList lib fileBase fileExt objs
      | Some wantedPath \<Rightarrow>
          if isMesh obj \<and> wantedPath \<noteq> [] then
            (case extMatch (snd (normalizeWanted lib wantedPath)) fileExt of
               Inl e \<Rightarrow> Inl e
             | Inr extMatch_v \<Rightarrow>
                 (case build_meshList lib fileBase fileExt objs of
                    Inl e \<Rightarrow> Inl e
                  | Inr rest \<Rightarrow>
                      Inr (\<lparr>me_mesh = obj, me_path = wantedPath,
                            me_isMatch = (extMatch_v \<and> fst (normalizeWanted lib wantedPath) = fileBase)\<rparr>
                           # rest)))
          else build_meshList lib fileBase fileExt objs)"

text \<open>Lines 183 to 185 and 209 to 211: release the old map, install the new one.\<close>

definition install_map :: "texture \<Rightarrow> nat \<Rightarrow> world \<Rightarrow> world" where
  "install_map tex a w =
     (let mat = materials w a;
          disposed = (case mat_map mat of None \<Rightarrow> [] | Some old \<Rightarrow> [Dispose (tex_name old)])
      in w\<lparr>materials := (materials w)(a := mat\<lparr>mat_map := Some tex, mat_color := 0xffffff\<rparr>),
           trace := trace w @ disposed\<rparr>)"

definition update_material :: "nat \<Rightarrow> (mesh_material \<Rightarrow> mesh_material) \<Rightarrow> world \<Rightarrow> world" where
  "update_material a f w = w\<lparr>materials := (materials w)(a := f (materials w a))\<rparr>"

definition set_transparent :: "mesh_material \<Rightarrow> mesh_material" where
  "set_transparent mat =
     mat\<lparr>mat_transparent := True, mat_blending := NormalBlending, mat_depthWrite := False\<rparr>"

definition set_opaque :: "mesh_material \<Rightarrow> mesh_material" where
  "set_opaque mat =
     mat\<lparr>mat_transparent := False, mat_blending := NoBlending, mat_depthWrite := True\<rparr>"

definition set_needsUpdate :: "mesh_material \<Rightarrow> mesh_material" where
  "set_needsUpdate mat = mat\<lparr>mat_needsUpdate := True\<rparr>"

text \<open>The body of the \<open>forEach\<close> of lines 180 to 198, for an OZJ or OZT file.\<close>

definition apply_oz :: "texture \<Rightarrow> string \<Rightarrow> mesh_entry \<Rightarrow> world \<times> bool \<Rightarrow> world \<times> bool" where
  "apply_oz tex fileExt m st =
     (if me_isMatch m then
        (let a = material (me_mesh m);
             w1 = install_map tex a (fst st);
             w2 = (if fileExt = ''ozt'' then update_material a set_transparent w1
                   else update_material a set_opaque w1)
         in (update_material a set_needsUpdate w2, True))
      else st)"

text \<open>The body of the \<open>forEach\<close> of lines 206 to 215, for any other file.\<close>

definition apply_plain :: "texture \<Rightarrow> mesh_entry \<Rightarrow> world \<times> bool \<Rightarrow> world \<times> bool" where
  "apply_plain tex m st =
     (if me_isMatch m then
        (let a = material (me_mesh m);
             w1 = install_map tex a (fst st)
         in (update_material a set_needsUpdate w1, True))
      else st)"

definition no_match_warning :: "string \<Rightarrow> event" where
  "no_match_warning fileName =
     ConsoleWarn (''No matching mesh found for '' @ [CHR 0x22] @ fileName @ [CHR 0x22])"

text \<open>
  The result is the world after the call and the error thrown, if any: what a throw
  leaves behind stays.
\<close>

definition loadAndApplyTexture ::
  "(string \<Rightarrow> error + bytes) \<Rightarrow> codec \<Rightarrow> object3d list \<Rightarrow> world \<Rightarrow> string \<Rightarrow> world \<times> error option"
where
  "loadAndApplyTexture readFileSync lib scene w filePath =
     (let ext = toLowerCase lib (path_extname filePath);
          loaded = load_texture readFileSync lib filePath;
          w1 = emit (fst loaded) w
      in (case snd loaded of
            Inl e \<Rightarrow> (w1, Some e)
          | Inr tex \<Rightarrow>
              let fileName = path_basename filePath;
                  fileBase = strip_ext (toLowerCase lib fileName);
                  fileExt = drop 1 ext
              in (case build_meshList lib fileBase fileExt scene of
                    Inl e \<Rightarrow> (w1, Some e)
                  | Inr meshList \<Rightarrow>
                      let st = (if fileExt = ''ozj'' \<or> fileExt = ''ozt''
                                then fold (apply_oz tex fileExt) meshList (w1, False)
                                else fold (apply_plain tex) meshList (w1, False))
                      in (if \<not> snd st then emit [no_match_warning fileName] (fst st)
                          else fst st,
                          None))))"

subsection \<open>\<open>convertBmdToGlb\<close> (lines 9 to 39)\<close>

text \<open>
  The binding loop of lines 20 to 26 over \<open>foundTextures\<close>, an object whose keys are
  enumerated in order: an association list. The scene that \<open>loader.load\<close> returned and
  the candidates that \<open>searchTextures\<close> found are parameters; the export that follows
  the loop is reached exactly when no error is returned. \<open>texturePaths[0]\<close> of an empty
  array is \<open>undefined\<close>, on which \<open>path.extname\<close> throws a TypeError.
\<close>

fun convertBmdToGlb ::
  "(string \<Rightarrow> error + bytes) \<Rightarrow> codec \<Rightarrow> object3d list \<Rightarrow> (string \<times> string list) list \<Rightarrow>
     world \<Rightarrow> world \<times> error option"
where
  "convertBmdToGlb readFileSync lib scene [] w = (w, None)"
| "convertBmdToGlb readFileSync lib scene ((textureName, texturePaths) # rest) w =
     (case texturePaths of
        [] \<Rightarrow> (w, Some TypeError)
      | texturePath # others \<Rightarrow>
          (case loadAndApplyTexture readFileSync lib scene w texturePath of
             (w', Some e) \<Rightarrow> (w', Some e)
           | (w', None) \<Rightarrow> convertBmdToGlb readFileSync lib scene rest w'))"

subsection \<open>\<open>loadAndApplyTextures\<close> and \<open>applyTextureToMeshes\<close> (lines 223 to 300)\<close>

text \<open>Lines 233 to 262: as lines 111 to 142, without the data URL.\<close>

definition load_texture_plain ::
  "(string \<Rightarrow> error + bytes) \<Rightarrow> codec \<Rightarrow> string \<Rightarrow> texture run"
where
  "load_texture_plain readFileSync lib texturePath =
     (let ext = toLowerCase lib (path_extname texturePath)
      in bind_run ([ReadFile texturePath], readFileSync texturePath) (\<lambda>fileBuffer.
           bind_run
             (if ext = ''.tga'' then convertTgaToBuffer lib fileBuffer
              else if ext = ''.ozj'' \<or> ext = ''.ozt'' then convertOzjToBuffer lib fileBuffer
              else
                bind_run ([SharpToBuffer fileBuffer], sharp_raw lib fileBuffer) (\<lambda>rawBuffer.
                bind_run ([SharpMetadata fileBuffer], sharp_metadata lib fileBuffer) (\<lambda>metadata.
                  ([], Inr \<lparr>buffer = rawBuffer, width = fst metadata, height = snd metadata\<rparr>))))
             (\<lambda>img. ([], Inr \<lparr>tex_name = path_basename texturePath, tex_image = img,
                               tex_src = []\<rparr>))))"

text \<open>The callback of the traversal of lines 273 to 299, for one object.\<close>

definition apply_named ::
  "codec \<Rightarrow> string \<Rightarrow> texture \<Rightarrow> object3d \<Rightarrow> world \<Rightarrow> world"
where
  "apply_named lib textureName tex obj w =
     (case userData_texturePath obj of
        None \<Rightarrow> w
      | Some wantedPath \<Rightarrow>
          if isMesh obj \<and> wantedPath \<noteq> [] then
            (let wantedBase = toLowerCase lib (path_basename_ext wantedPath (path_extname wantedPath))
             in if wantedBase = textureName then
                  (let a = material obj;
                       w1 = install_map tex a w;
                       ext = toLowerCase lib (path_extname (tex_name tex));
                       w2 = (if ext = ''.ozt'' then update_material a set_transparent w1
                             else update_material a set_opaque w1)
                   in update_material a set_needsUpdate w2)
                else w)
          else w)"

definition applyTextureToMeshes ::
  "codec \<Rightarrow> object3d list \<Rightarrow> string \<Rightarrow> texture \<Rightarrow> world \<Rightarrow> world"
where
  "applyTextureToMeshes lib scene textureName tex w =
     fold (apply_named lib textureName tex) scene w"

fun loadAndApplyTextures ::
  "(string \<Rightarrow> error + bytes) \<Rightarrow> codec \<Rightarrow> object3d list \<Rightarrow> (string \<times> string list) list \<Rightarrow>
     world \<Rightarrow> world \<times> error option"
where
  "loadAndApplyTextures readFileSync lib scene [] w = (w, None)"
| "loadAndApplyTextures readFileSync lib scene ((textureName, texturePaths) # rest) w =
     (case texturePaths of
        [] \<Rightarrow> (w, Some TypeError)
      | texturePath # others \<Rightarrow>
          (let loaded = load_texture_plain readFileSync lib texturePath;
               w1 = emit (fst loaded) w
           in (case snd loaded of
                 Inl e \<Rightarrow>
                   loadAndApplyTextures readFileSync lib scene rest
                     (emit [ConsoleError (''Failed to load texture '' @ texturePath @ '': '' @
                                          error_to_string e)] w1)
               | Inr tex \<Rightarrow>
                   loadAndApplyTextures readFileSync lib scene rest
                     (applyTextureToMeshes lib scene textureName tex w1))))"

section \<open>Notions used in the statements\<close>

subsection \<open>The loader\<close>

text \<open>The marker \<open>FF D8 FF\<close> occurs at offset \<open>k\<close> and fits in the buffer.\<close>

definition marker_at :: "bytes \<Rightarrow> nat \<Rightarrow> bool" where
  "marker_at u8 k \<longleftrightarrow>
     k + 2 < length u8 \<and> u8 ! k = 0xff \<and> u8 ! (k + 1) = 0xd8 \<and> u8 ! (k + 2) = 0xff"

text \<open>The validation of the OZT header fields, on a buffer of at least 22 bytes.\<close>

definition ozt_header_ok :: "bytes \<Rightarrow> bool" where
  "ozt_header_ok u8 \<longleftrightarrow>
     (let w = int16_le (u8 ! 16) (u8 ! 17); h = int16_le (u8 ! 18) (u8 ! 19)
      in 0 < w \<and> 0 < h \<and> w \<le> 1024 \<and> h \<le> 1024 \<and> uint (u8 ! 20) = 32 \<and>
         22 + w * h * 4 \<le> int (length u8))"

text \<open>
  The source offset of destination byte \<open>j\<close>: the same quad, with the first and third
  byte exchanged. \<open>decoded src n\<close> is the first \<open>n\<close> destination bytes, and
  \<open>ozt_inv\<close> the invariant of the two loops after \<open>q\<close> quads.
\<close>

definition bgra_src :: "nat \<Rightarrow> nat" where
  "bgra_src j =
     22 + 4 * (j div 4) + (if j mod 4 = 0 then 2 else if j mod 4 = 2 then 0 else j mod 4)"

definition decoded :: "bytes \<Rightarrow> nat \<Rightarrow> bytes" where
  "decoded src n = map (\<lambda>j. to_u8 (u8_get src (bgra_src j))) [0..<n]"

definition ozt_inv :: "bytes \<Rightarrow> nat \<Rightarrow> nat \<Rightarrow> ozt_state \<Rightarrow> bool" where
  "ozt_inv src n q st \<longleftrightarrow>
     (case st of (ev, offset, rgba) \<Rightarrow>
        offset = 22 + 4 * q \<and> length rgba = n \<and> take (4 * q) rgba = decoded src (4 * q))"

text \<open>The calls of the image codec among the events of a run.\<close>

fun is_codec_call :: "event \<Rightarrow> bool" where
  "is_codec_call (SharpToBuffer b) = True"
| "is_codec_call (SharpMetadata b) = True"
| "is_codec_call e = False"

text \<open>
  What the codec makes of a stream: its pixels with its dimensions, or its rejection
  wrapped in the loader's error. \<open>codec_calls\<close> is one decode, followed by the metadata
  query when the decode succeeds.
\<close>

definition codec_outcome :: "codec \<Rightarrow> bytes \<Rightarrow> error + image" where
  "codec_outcome lib jpegBuf =
     (case sharp_raw lib jpegBuf of
        Inl err \<Rightarrow> Inl (Error (''Failed to decode JPEG: '' @ error_to_string err))
      | Inr rawBuffer \<Rightarrow>
          (case sharp_metadata lib jpegBuf of
             Inl err \<Rightarrow> Inl (Error (''Failed to decode JPEG: '' @ error_to_string err))
           | Inr (w, h) \<Rightarrow> Inr \<lparr>buffer = rawBuffer, width = w, height = h\<rparr>))"

definition codec_calls :: "codec \<Rightarrow> bytes \<Rightarrow> event list" where
  "codec_calls lib jpegBuf =
     (case sharp_raw lib jpegBuf of
        Inl err \<Rightarrow> [SharpToBuffer jpegBuf]
      | Inr rawBuffer \<Rightarrow> [SharpToBuffer jpegBuf, SharpMetadata jpegBuf])"

subsection \<open>Concrete inputs\<close>

text \<open>
  On a string of ASCII characters \<open>toLowerCase\<close> replaces the letters A to Z by a to z
  and leaves the rest; \<open>ascii_lower\<close> does so. It stands for the builtin in the concrete
  inputs below, whose names are all ASCII.
\<close>

definition lower_char :: "char \<Rightarrow> char" where
  "lower_char c =
     (case map_of (zip ''ABCDEFGHIJKLMNOPQRSTUVWXYZ'' ''abcdefghijklmnopqrstuvwxyz'') c of
        None \<Rightarrow> c
      | Some l \<Rightarrow> l)"

definition ascii_lower :: "string \<Rightarrow> string" where
  "ascii_lower s = map lower_char s"

text \<open>A codec that rejects every stream, and one that decodes every stream to one pixel.\<close>

definition reject_all :: codec where
  "reject_all =
     \<lparr>sharp_raw = (\<lambda>b. Inl (Error ''unsupported image format'')),
      sharp_metadata = (\<lambda>b. Inl (Error ''unsupported image format'')),
      sharp_png = (\<lambda>i. Inl (Error ''unsupported image format'')),
      decodeTga = (\<lambda>b. Inl (Error ''unsupported image format'')),
      base64 = (\<lambda>b. []),
      toLowerCase = ascii_lower\<rparr>"

definition one_pixel :: image where
  "one_pixel = \<lparr>buffer = [1, 2, 3, 255], width = 1, height = 1\<rparr>"

definition accept_1x1 :: codec where
  "accept_1x1 =
     \<lparr>sharp_raw = (\<lambda>b. Inr [1, 2, 3, 255]),
      sharp_metadata = (\<lambda>b. Inr (1, 1)),
      sharp_png = (\<lambda>i. Inr [0x89, 0x50, 0x4e, 0x47]),
      decodeTga = (\<lambda>b. Inr one_pixel),
      base64 = (\<lambda>b. ''iVBORw==''),
      toLowerCase = ascii_lower\<rparr>"

text \<open>A 22-byte OZT header that declares one pixel, with no pixel data behind it.\<close>

definition truncated_ozt :: bytes where
  "truncated_ozt = replicate 16 0 @ [1, 0, 1, 0, 32, 0]"

text \<open>
  The header with width 2, height 1 and depth 32 (any reserved bytes), followed by two
  quads.
\<close>

definition ozt_example :: "bytes \<Rightarrow> byte \<Rightarrow> bytes" where
  "ozt_example reserved r =
     reserved @ [2, 0, 1, 0, 32, r] @ [0x00, 0x00, 0xFF, 0xFF, 0x10, 0x20, 0x30, 0xFF]"

text \<open>A 24-byte header followed by the start of a JPEG stream.\<close>

definition ozj_example :: bytes where
  "ozj_example = replicate 24 0 @ [0xff, 0xd8, 0xff, 0xe0, 0x00, 0x10]"

subsection \<open>The binder\<close>

text \<open>
  The texture reference of an object that the traversals consider: a mesh with a
  non-empty \<open>texturePath\<close>.
\<close>

definition wanted :: "object3d \<Rightarrow> string option" where
  "wanted obj =
     (case userData_texturePath obj of
        None \<Rightarrow> None
      | Some p \<Rightarrow> if isMesh obj \<and> p \<noteq> [] then Some p else None)"

text \<open>The normalized base name and extension of a file, as lines 111 and 153 to 155 compute them.\<close>

definition file_base :: "codec \<Rightarrow> string \<Rightarrow> string" where
  "file_base lib filePath = strip_ext (toLowerCase lib (path_basename filePath))"

definition file_ext :: "codec \<Rightarrow> string \<Rightarrow> string" where
  "file_ext lib filePath = drop 1 (toLowerCase lib (path_extname filePath))"

text \<open>
  Both checks pass for a file and an object: equal base names and matching extensions.
  \<open>match_defined\<close> says that the extension test does not throw for the object.
\<close>

definition accepts :: "codec \<Rightarrow> string \<Rightarrow> object3d \<Rightarrow> bool" where
  "accepts lib filePath obj =
     (case wanted obj of
        None \<Rightarrow> False
      | Some p \<Rightarrow>
          fst (normalizeWanted lib p) = file_base lib filePath \<and>
          extMatch (snd (normalizeWanted lib p)) (file_ext lib filePath) = Inr True)"

definition match_defined :: "codec \<Rightarrow> string \<Rightarrow> object3d \<Rightarrow> bool" where
  "match_defined lib filePath obj =
     (case wanted obj of
        None \<Rightarrow> True
      | Some p \<Rightarrow> extMatch (snd (normalizeWanted lib p)) (file_ext lib filePath) \<noteq> Inl TypeError)"

text \<open>
  No mesh of the scene that passes both checks for the file has its material at address
  \<open>a\<close>: the bind of the file does not reach that material, neither through the mesh
  that owns it nor through a mesh that shares it.
\<close>

definition out_of_reach :: "codec \<Rightarrow> object3d list \<Rightarrow> string \<Rightarrow> nat \<Rightarrow> bool" where
  "out_of_reach lib scene filePath a =
     list_all (\<lambda>obj. \<not> (accepts lib filePath obj \<and> material obj = a)) scene"

text \<open>The base name that \<open>applyTextureToMeshes\<close> compares with the texture name (line 277).\<close>

definition wanted_base_named :: "codec \<Rightarrow> string \<Rightarrow> string" where
  "wanted_base_named lib wantedPath =
     toLowerCase lib (path_basename_ext wantedPath (path_extname wantedPath))"

text \<open>
  An object that \<open>applyTextureToMeshes\<close> binds for a texture name, and the same notion
  of reach for it.
\<close>

definition named_match :: "codec \<Rightarrow> string \<Rightarrow> object3d \<Rightarrow> bool" where
  "named_match lib textureName obj =
     (case wanted obj of
        None \<Rightarrow> False
      | Some p \<Rightarrow> wanted_base_named lib p = textureName)"

definition out_of_reach_named :: "codec \<Rightarrow> object3d list \<Rightarrow> string \<Rightarrow> nat \<Rightarrow> bool" where
  "out_of_reach_named lib scene textureName a =
     list_all (\<lambda>obj. \<not> (named_match lib textureName obj \<and> material obj = a)) scene"

text \<open>The equivalents of an extension: its row of the table, empty when it has none.\<close>

definition equivalents :: "string \<Rightarrow> string list" where
  "equivalents k = (case map_of equivExt_table k of None \<Rightarrow> [] | Some exts \<Rightarrow> exts)"

text \<open>The three rendering flags of a material.\<close>

definition flags :: "mesh_material \<Rightarrow> bool \<times> blending \<times> bool" where
  "flags mat = (mat_transparent mat, mat_blending mat, mat_depthWrite mat)"

text \<open>The events of a list are all disposals of textures.\<close>

fun is_dispose :: "event \<Rightarrow> bool" where
  "is_dispose (Dispose n) = True"
| "is_dispose e = False"

text \<open>A material as THREE constructs it, and a world in which every material is such.\<close>

definition fresh_material :: mesh_material where
  "fresh_material =
     \<lparr>mat_map = None, mat_color = 0xffffff, mat_transparent = False,
      mat_blending = NormalBlending, mat_depthWrite = True, mat_needsUpdate = False\<rparr>"

definition fresh_world :: world where
  "fresh_world = \<lparr>materials = (\<lambda>a. fresh_material), trace = []\<rparr>"

text \<open>
  A material that the first binder has bound for an OZJ or OZT file, and one that it has
  bound for any other file, whose flags are those of the material \<open>old\<close>.
\<close>

definition bound_oz :: "texture \<Rightarrow> string \<Rightarrow> mesh_material \<Rightarrow> bool" where
  "bound_oz tex fileExt mat \<longleftrightarrow>
     mat_map mat = Some tex \<and> mat_color mat = 0xffffff \<and> mat_needsUpdate mat \<and>
     flags mat = (if fileExt = ''ozt'' then (True, NormalBlending, False)
                  else (False, NoBlending, True))"

definition bound_plain :: "texture \<Rightarrow> mesh_material \<Rightarrow> mesh_material \<Rightarrow> bool" where
  "bound_plain tex old mat \<longleftrightarrow>
     mat_map mat = Some tex \<and> mat_color mat = 0xffffff \<and> mat_needsUpdate mat \<and>
     flags mat = flags old"

text \<open>The flags that \<open>applyTextureToMeshes\<close> sets, from the extension of the texture's name.\<close>

definition named_flags :: "codec \<Rightarrow> texture \<Rightarrow> bool \<times> blending \<times> bool" where
  "named_flags lib tex =
     (if toLowerCase lib (path_extname (tex_name tex)) = ''.ozt'' then (True, NormalBlending, False)
      else (False, NoBlending, True))"

text \<open>
  The candidates with only their first file each, and the first file of an entry leaving
  a material out of reach (an entry without files has no first file).
\<close>

definition first_only :: "(string \<times> string list) list \<Rightarrow> (string \<times> string list) list" where
  "first_only found = map (\<lambda>(n, ps). (n, take 1 ps)) found"

definition first_out_of_reach ::
  "codec \<Rightarrow> object3d list \<Rightarrow> nat \<Rightarrow> string \<times> string list \<Rightarrow> bool"
where
  "first_out_of_reach lib scene a entry =
     (case snd entry of [] \<Rightarrow> True | f # others \<Rightarrow> out_of_reach lib scene f a)"

subsection \<open>Concrete scenes, files and candidates\<close>

text \<open>A mesh with its material at address \<open>a\<close> that asks for the texture \<open>p\<close>.\<close>

definition mesh_at :: "nat \<Rightarrow> string \<Rightarrow> object3d" where
  "mesh_at a p = \<lparr>isMesh = True, userData_texturePath = Some p, material = a\<rparr>"

text \<open>Two meshes, each with its own material, and two meshes that share one material.\<close>

definition two_meshes :: "object3d list" where
  "two_meshes = [mesh_at 0 ''wing.tga'', mesh_at 1 ''body.jpg'']"

definition shared_meshes :: "object3d list" where
  "shared_meshes = [mesh_at 0 ''wing.tga'', mesh_at 0 ''body.jpg'']"

text \<open>
  A directory with a valid OZT file, a TGA file, a JPEG file and an OZT file of three
  bytes.
\<close>

definition disk :: "string \<Rightarrow> error + bytes" where
  "disk p =
     (if p = ''/m/wing.ozt'' then Inr (ozt_example (replicate 16 0) 0)
      else if p = ''/m/wing.tga'' then Inr [0]
      else if p = ''/m/wing.jpg'' then Inr [0xff, 0xd8, 0xff]
      else if p = ''/m/bad.ozt'' then Inr [0, 1, 2]
      else Inl (Error ''ENOENT''))"

text \<open>The textures that the one-pixel codec makes of these files.\<close>

definition wing_tga_tex :: texture where
  "wing_tga_tex = \<lparr>tex_name = ''wing.tga'', tex_image = one_pixel,
                    tex_src = ''data:image/png;base64,iVBORw==''\<rparr>"

definition wing_jpg_tex :: texture where
  "wing_jpg_tex = \<lparr>tex_name = ''wing.jpg'', tex_image = one_pixel,
                    tex_src = ''data:image/jpeg;base64,iVBORw==''\<rparr>"

definition wing_jpg_plain :: texture where
  "wing_jpg_plain = \<lparr>tex_name = ''wing.jpg'', tex_image = one_pixel, tex_src = []\<rparr>"

text \<open>
  Two candidates for one name, of which only the second matches a request for a TGA
  file; one candidate for that name; and two names, the first of which has a file that
  cannot be decoded.
\<close>

definition wing_candidates :: "(string \<times> string list) list" where
  "wing_candidates = [(''wing'', [''/m/wing.jpg'', ''/m/wing.ozt''])]"

definition wing_tga_candidate :: "(string \<times> string list) list" where
  "wing_tga_candidate = [(''wing'', [''/m/wing.tga''])]"

definition bad_then_wing :: "(string \<times> string list) list" where
  "bad_then_wing = [(''bad'', [''/m/bad.ozt'']), (''wing'', [''/m/wing.jpg''])]"

section \<open>The loader: proofs\<close>

subsection \<open>The marker scan\<close>

lemma soi_at_snd: "snd (soi_at u8 i) = marker_at u8 i"
  by (auto simp: soi_at_def marker_at_def u8_get_def)

lemma soi_at_reads:
  "int i < int (length u8) - 2 \<Longrightarrow> e \<in> set (fst (soi_at u8 i)) \<Longrightarrow> \<exists>n. e = Read n \<and> n < length u8"
  by (auto simp: soi_at_def split: if_splits)

lemma scan_from_reads:
  "e \<in> set (fst (scan_from u8 i)) \<Longrightarrow> \<exists>n. e = Read n \<and> n < length u8"
proof (induction u8 i rule: scan_from.induct)
  case (1 u8 i)
  show ?case
  proof (cases "int i < min 30 (int (length u8) - 2)")
    case True
    then have b: "int i < int (length u8) - 2" by simp
    from "1.prems" True have "e \<in> set (fst (soi_at u8 i)) \<or>
        (\<not> snd (soi_at u8 i) \<and> e \<in> set (fst (scan_from u8 (i + 1))))"
      by (subst (asm) scan_from.simps) (auto split: if_splits)
    then show ?thesis
      using soi_at_reads [OF b] "1.IH" True by blast
  next
    case False
    with "1.prems" show ?thesis by (subst (asm) scan_from.simps) auto
  qed
qed

lemma scan_from_none:
  "snd (scan_from u8 i) = - 1 \<longleftrightarrow> (\<forall>k. i \<le> k \<and> k \<le> 29 \<longrightarrow> \<not> marker_at u8 k)"
proof (induction u8 i rule: scan_from.induct)
  case (1 u8 i)
  show ?case
  proof (cases "int i < min 30 (int (length u8) - 2)")
    case True
    show ?thesis
    proof (cases "marker_at u8 i")
      case m: True
      with True show ?thesis
        by (subst scan_from.simps) (auto simp: soi_at_snd)
    next
      case m: False
      have "snd (scan_from u8 i) = snd (scan_from u8 (i + 1))"
        using True m by (subst scan_from.simps) (simp add: soi_at_snd)
      also have "\<dots> = - 1 \<longleftrightarrow> (\<forall>k. i + 1 \<le> k \<and> k \<le> 29 \<longrightarrow> \<not> marker_at u8 k)"
        using "1.IH" True m by (simp add: soi_at_snd)
      also have "\<dots> \<longleftrightarrow> (\<forall>k. i \<le> k \<and> k \<le> 29 \<longrightarrow> \<not> marker_at u8 k)"
      proof -
        have "\<And>k. i \<le> k \<longleftrightarrow> k = i \<or> i + 1 \<le> k" by auto
        with m show ?thesis by auto
      qed
      finally show ?thesis .
    qed
  next
    case False
    then have "\<And>k. i \<le> k \<Longrightarrow> k \<le> 29 \<Longrightarrow> \<not> marker_at u8 k"
      by (auto simp: marker_at_def)
    with False show ?thesis
      by (subst scan_from.simps) auto
  qed
qed

lemma scan_from_found:
  "i \<le> k \<Longrightarrow> k \<le> 29 \<Longrightarrow> marker_at u8 k \<Longrightarrow> (\<forall>j. i \<le> j \<and> j < k \<longrightarrow> \<not> marker_at u8 j)
     \<Longrightarrow> snd (scan_from u8 i) = int k"
proof (induction u8 i rule: scan_from.induct)
  case (1 u8 i)
  from "1.prems" have b: "int i < min 30 (int (length u8) - 2)"
    by (auto simp: marker_at_def)
  show ?case
  proof (cases "i = k")
    case True
    with b "1.prems" show ?thesis
      by (subst scan_from.simps) (simp add: soi_at_snd)
  next
    case False
    with "1.prems" have lt: "i < k" and nm: "\<not> marker_at u8 i" by auto
    have "snd (scan_from u8 i) = snd (scan_from u8 (i + 1))"
      using b nm by (subst scan_from.simps) (simp add: soi_at_snd)
    also have "\<dots> = int k"
      using "1.IH" b nm lt "1.prems" by (simp add: soi_at_snd)
    finally show ?thesis .
  qed
qed

lemma scan_from_short: "length u8 \<le> 22 \<Longrightarrow> scan_from u8 20 = ([], - 1)"
  by (subst scan_from.simps) simp

subsection \<open>The three branches of the entry point\<close>

lemma convert_ozj:
  "snd (scan_from u8 20) \<noteq> - 1 \<Longrightarrow>
   convertOzjToBuffer sharp u8 =
     (fst (scan_from u8 20) @ fst (ozjToPng sharp u8 (snd (scan_from u8 20))),
      snd (ozjToPng sharp u8 (snd (scan_from u8 20))))"
  by (simp add: convertOzjToBuffer_def bind_run_def Let_def)

lemma convert_small:
  "length u8 < 22 \<Longrightarrow> convertOzjToBuffer sharp u8 = ([], Inl (Error ''File too small for OZT''))"
  by (simp add: convertOzjToBuffer_def bind_run_def Let_def scan_from_short)

lemma convert_header:
  "snd (scan_from u8 20) = - 1 \<Longrightarrow> 22 \<le> length u8 \<Longrightarrow>
   convertOzjToBuffer sharp u8 =
     (if ozt_header_ok u8
      then (fst (scan_from u8 20) @ [Read 16, Read 17, Read 18, Read 19, Read 20] @
              fst (oztToPng u8 (int16_le (u8 ! 16) (u8 ! 17)) (int16_le (u8 ! 18) (u8 ! 19))),
            snd (oztToPng u8 (int16_le (u8 ! 16) (u8 ! 17)) (int16_le (u8 ! 18) (u8 ! 19))))
      else (fst (scan_from u8 20) @ [Read 16, Read 17, Read 18, Read 19, Read 20],
            Inl (Error ''Unsupported OZ? file'')))"
  by (simp add: convertOzjToBuffer_def bind_run_def Let_def getInt16_def getUint8_def
        ozt_header_ok_def)

subsection \<open>The invariant of the OZT loops\<close>

lemma bgra_src_quad:
  "bgra_src (4 * q) = 22 + 4 * q + 2" "bgra_src (4 * q + 1) = 22 + 4 * q + 1"
  "bgra_src (4 * q + 2) = 22 + 4 * q" "bgra_src (4 * q + 3) = 22 + 4 * q + 3"
proof -
  have "(4 * q + 1) div 4 = q" "(4 * q + 2) div 4 = q" "(4 * q + 3) div 4 = q"
       "(4 * q + 1) mod 4 = 1" "(4 * q + 2) mod 4 = 2" "(4 * q + 3) mod 4 = 3"
    by presburger+
  then show "bgra_src (4 * q) = 22 + 4 * q + 2" "bgra_src (4 * q + 1) = 22 + 4 * q + 1"
    "bgra_src (4 * q + 2) = 22 + 4 * q" "bgra_src (4 * q + 3) = 22 + 4 * q + 3"
    unfolding bgra_src_def by simp_all
qed

lemma bgra_src_Suc:
  "bgra_src (Suc (4 * q)) = 22 + 4 * q + 1" "bgra_src (Suc (Suc (4 * q))) = 22 + 4 * q"
  using bgra_src_quad(2,3) [of q] by simp_all

lemma quad_cases:
  assumes "j < 4 * q + (4::nat)"
  shows "j < 4 * q \<or> j = 4 * q \<or> j = 4 * q + 1 \<or> j = 4 * q + 2 \<or> j = 4 * q + 3"
  using assms by arith

lemma ozt_pixel_inv:
  assumes inv: "ozt_inv src n q st" and fit: "4 * q + 4 \<le> n"
    and i: "dstRowStart + int x * 4 = int (4 * q)"
  shows "ozt_inv src n (q + 1) (ozt_pixel src dstRowStart x st)"
proof -
  obtain ev offset rgba where st: "st = (ev, offset, rgba)" by (cases st)
  from inv st have off: "offset = 22 + 4 * q" and len: "length rgba = n"
    and tk: "take (4 * q) rgba = decoded src (4 * q)"
    by (simp_all add: ozt_inv_def)
  let ?r = "rgba[4 * q := to_u8 (u8_get src (offset + 2)),
                 4 * q + 1 := to_u8 (u8_get src (offset + 1)),
                 4 * q + 2 := to_u8 (u8_get src offset),
                 4 * q + 3 := to_u8 (u8_get src (offset + 3))]"
  have px: "ozt_pixel src dstRowStart x st =
      (ev @ [Read offset, Read (offset + 1), Read (offset + 2), Read (offset + 3)], offset + 4, ?r)"
    using fit len unfolding st ozt_pixel_def Let_def i u8_set_def
    by (simp add: nat_add_distrib nat_mult_distrib)
  have old: "rgba ! j = decoded src (4 * q + 4) ! j" if "j < 4 * q" for j
  proof -
    have "rgba ! j = take (4 * q) rgba ! j" using that by simp
    also have "\<dots> = decoded src (4 * q) ! j" by (simp only: tk)
    also have "\<dots> = decoded src (4 * q + 4) ! j" using that by (simp add: decoded_def)
    finally show ?thesis .
  qed
  have "take (4 * q + 4) ?r = decoded src (4 * q + 4)"
  proof (rule nth_equalityI)
    show "length (take (4 * q + 4) ?r) = length (decoded src (4 * q + 4))"
      using fit len by (simp add: decoded_def)
  next
    fix j assume "j < length (take (4 * q + 4) ?r)"
    then have j: "j < 4 * q + 4" by simp
    from quad_cases [OF j] show "take (4 * q + 4) ?r ! j = decoded src (4 * q + 4) ! j"
    proof (elim disjE)
      assume "j < 4 * q"
      then show ?thesis using old [of j] j by simp
    next
      assume "j = 4 * q"
      then show ?thesis using fit len off by (simp add: decoded_def bgra_src_quad bgra_src_Suc)
    next
      assume "j = 4 * q + 1"
      then show ?thesis using fit len off by (simp add: decoded_def bgra_src_quad bgra_src_Suc)
    next
      assume "j = 4 * q + 2"
      then show ?thesis using fit len off by (simp add: decoded_def bgra_src_quad bgra_src_Suc)
    next
      assume "j = 4 * q + 3"
      then show ?thesis using fit len off by (simp add: decoded_def bgra_src_quad bgra_src_Suc)
    qed
  qed
  then show ?thesis
    using off len unfolding px ozt_inv_def by (simp add: algebra_simps)
qed

lemma ozt_row_inv:
  "ozt_inv src n (d + x) st \<Longrightarrow> x \<le> w \<Longrightarrow> 4 * (d + w) \<le> n \<Longrightarrow>
   ozt_inv src n (d + w) (ozt_row src (int w) (int (4 * d)) x st)"
proof (induction src "int w" "int (4 * d)" x st rule: ozt_row.induct)
  case (1 src x st)
  show ?case
  proof (cases "x < w")
    case True
    have "ozt_inv src n (d + x + 1) (ozt_pixel src (int (4 * d)) x st)"
      using "1.prems" True by (intro ozt_pixel_inv) simp_all
    then have "ozt_inv src n (d + w) (ozt_row src (int w) (int (4 * d)) (x + 1)
        (ozt_pixel src (int (4 * d)) x st))"
      using "1.hyps" "1.prems" True by simp
    then show ?thesis
      using True by (subst ozt_row.simps) simp
  next
    case False
    with "1.prems" have "x = w" by simp
    with "1.prems" show ?thesis by (subst ozt_row.simps) simp
  qed
qed

lemma ozt_rows_inv:
  "ozt_inv src n (y * w) st \<Longrightarrow> y \<le> h \<Longrightarrow> 4 * (h * w) \<le> n \<Longrightarrow>
   ozt_inv src n (h * w) (ozt_rows src (int w) (int h) y st)"
proof (induction src "int w" "int h" y st rule: ozt_rows.induct)
  case (1 src y st)
  show ?case
  proof (cases "y < h")
    case True
    then have "(y + 1) * w \<le> h * w" by (intro mult_le_mono1) simp
    then have fit: "4 * (y * w + w) \<le> n" using "1.prems" by (simp add: algebra_simps)
    have d: "int y * int w * 4 = int (4 * (y * w))" by simp
    have "ozt_inv src n (y * w + w) (ozt_row src (int w) (int y * int w * 4) 0 st)"
      unfolding d using "1.prems" fit by (intro ozt_row_inv) simp_all
    then have "ozt_inv src n (h * w) (ozt_rows src (int w) (int h) (y + 1)
        (ozt_row src (int w) (int y * int w * 4) 0 st))"
      using "1.hyps" "1.prems" True by (simp add: algebra_simps)
    then show ?thesis
      using True by (subst ozt_rows.simps) simp
  next
    case False
    with "1.prems" have "y = h" by simp
    with "1.prems" show ?thesis by (subst ozt_rows.simps) simp
  qed
qed

lemma oztToPng_decoded:
  "snd (oztToPng src (int w) (int h)) =
     Inr \<lparr>buffer = decoded src (4 * (w * h)), width = int w, height = int h\<rparr>"
proof -
  let ?n = "4 * (h * w)"
  have "ozt_inv src ?n (0 * w) ([], 22, replicate ?n 0)"
    by (simp add: ozt_inv_def decoded_def)
  then have "ozt_inv src ?n (h * w) (ozt_rows src (int w) (int h) 0 ([], 22, replicate ?n 0))"
    by (rule ozt_rows_inv) simp_all
  moreover have "nat (int w * int h * 4) = ?n"
    by (simp add: nat_mult_distrib algebra_simps)
  moreover have "\<not> int w * int h * 4 < 0"
    by (simp add: mult_less_0_iff)
  ultimately show ?thesis
    by (auto simp: oztToPng_def ozt_inv_def algebra_simps split: prod.splits)
qed

subsection \<open>Classification and its failures\<close>

lemma no_marker_iff: "snd (scan_from u8 20) = - 1 \<longleftrightarrow> \<not> (\<exists>k. 20 \<le> k \<and> k \<le> 29 \<and> marker_at u8 k)"
  by (auto simp: scan_from_none)

lemma scan_from_least:
  assumes "\<exists>k. 20 \<le> k \<and> k \<le> 29 \<and> marker_at u8 k"
  shows "snd (scan_from u8 20) = int (LEAST k. 20 \<le> k \<and> k \<le> 29 \<and> marker_at u8 k)"
proof -
  let ?P = "\<lambda>k. 20 \<le> k \<and> k \<le> 29 \<and> marker_at u8 k"
  from assms obtain k0 where "?P k0" by blast
  then have l: "?P (Least ?P)" by (rule LeastI)
  have "\<not> marker_at u8 j" if "20 \<le> j" "j < Least ?P" for j
  proof
    assume "marker_at u8 j"
    with that l have "?P j" by simp
    then have "Least ?P \<le> j" by (rule Least_le)
    with that show False by simp
  qed
  with l show ?thesis by (intro scan_from_found) auto
qed

text \<open>
  Claim C2. Classification is a total three-way function of the input bytes alone. If the
  marker \<open>FF D8 FF\<close> occurs at an offset between 20 and 29 where it fits in the buffer,
  the buffer is handled as OZJ with the smallest such offset as the start of the embedded
  stream. Otherwise a buffer of at least 22 bytes is handled as OZT exactly when width
  and height (16 bits, little endian, at offsets 16 and 18) are positive and at most 1024,
  the depth at offset 20 is 32 and \<open>22 + width * height * 4\<close> is at most the length of
  the buffer. Otherwise classification fails: with \<open>File too small for OZT\<close> below 22
  bytes and with \<open>Unsupported OZ? file\<close> from 22 bytes on.
\<close>

theorem classification_three_way:
  "snd (convertOzjToBuffer sharp u8) =
     (if \<exists>k. 20 \<le> k \<and> k \<le> 29 \<and> marker_at u8 k
      then snd (ozjToPng sharp u8 (int (LEAST k. 20 \<le> k \<and> k \<le> 29 \<and> marker_at u8 k)))
      else if length u8 < 22 then Inl (Error ''File too small for OZT'')
      else if ozt_header_ok u8
      then snd (oztToPng u8 (int16_le (u8 ! 16) (u8 ! 17)) (int16_le (u8 ! 18) (u8 ! 19)))
      else Inl (Error ''Unsupported OZ? file''))"
proof (cases "\<exists>k. 20 \<le> k \<and> k \<le> 29 \<and> marker_at u8 k")
  case True
  then have "snd (scan_from u8 20) \<noteq> - 1" by (simp add: no_marker_iff)
  then show ?thesis using True scan_from_least [OF True] by (simp add: convert_ozj)
next
  case nm: False
  then have n: "snd (scan_from u8 20) = - 1" by (simp add: no_marker_iff)
  show ?thesis
  proof (cases "length u8 < 22")
    case True
    then show ?thesis by (simp only: nm if_False if_True convert_small snd_conv)
  next
    case False
    then have "22 \<le> length u8" by simp
    from convert_header [OF n this] show ?thesis
      by (simp only: nm False if_False snd_conv if_distrib [of snd] cong: if_cong)
  qed
qed

lemma truncated_not_ok:
  "int (length u8) < 22 + int16_le (u8 ! 16) (u8 ! 17) * int16_le (u8 ! 18) (u8 ! 19) * 4
     \<Longrightarrow> \<not> ozt_header_ok u8"
  by (simp add: ozt_header_ok_def Let_def)

text \<open>
  Claim C1, amended. For every buffer of at least 22 bytes with no marker in the scan
  window whose header declares a width and a height with \<open>22 + width * height * 4\<close>
  greater than the length of the buffer, decoding fails with the general error
  \<open>Unsupported OZ? file\<close> (the loader has no error of its own for truncated data), and
  every byte the run reads lies inside the buffer.
\<close>

theorem truncated_ozt_is_unsupported:
  assumes "22 \<le> length u8"
    and "\<forall>k. 20 \<le> k \<and> k \<le> 29 \<longrightarrow> \<not> marker_at u8 k"
    and "int (length u8) < 22 + int16_le (u8 ! 16) (u8 ! 17) * int16_le (u8 ! 18) (u8 ! 19) * 4"
  shows "snd (convertOzjToBuffer sharp u8) = Inl (Error ''Unsupported OZ? file'') \<and>
         (\<forall>e \<in> set (fst (convertOzjToBuffer sharp u8)). \<exists>n. e = Read n \<and> n < length u8)"
proof -
  from assms(2) have n: "snd (scan_from u8 20) = - 1" by (simp add: scan_from_none)
  have c: "convertOzjToBuffer sharp u8 =
      (fst (scan_from u8 20) @ [Read 16, Read 17, Read 18, Read 19, Read 20],
       Inl (Error ''Unsupported OZ? file''))"
    using convert_header [OF n assms(1)] truncated_not_ok [OF assms(3)] by simp
  show ?thesis
    unfolding c using assms(1) scan_from_reads [of _ u8 20] by auto
qed

lemma truncated_ozt_no_marker: "20 \<le> k \<Longrightarrow> \<not> marker_at truncated_ozt k"
  by (simp add: marker_at_def truncated_ozt_def)

text \<open>The amended claim C1 at the 22-byte header that declares one pixel.\<close>

theorem truncated_ozt_is_unsupported_witness:
  "22 \<le> length truncated_ozt \<and>
   int (length truncated_ozt)
     < 22 + int16_le (truncated_ozt ! 16) (truncated_ozt ! 17) *
            int16_le (truncated_ozt ! 18) (truncated_ozt ! 19) * 4 \<and>
   snd (convertOzjToBuffer reject_all truncated_ozt) = Inl (Error ''Unsupported OZ? file'') \<and>
   list_all (\<lambda>e. \<exists>n. e = Read n \<and> n < length truncated_ozt)
     (fst (convertOzjToBuffer reject_all truncated_ozt))"
proof -
  have l: "22 \<le> length truncated_ozt" by (simp add: truncated_ozt_def)
  have m: "\<forall>k. 20 \<le> k \<and> k \<le> 29 \<longrightarrow> \<not> marker_at truncated_ozt k"
    by (simp add: truncated_ozt_no_marker)
  have t: "int (length truncated_ozt)
      < 22 + int16_le (truncated_ozt ! 16) (truncated_ozt ! 17) *
             int16_le (truncated_ozt ! 18) (truncated_ozt ! 19) * 4"
    by (simp add: truncated_ozt_def int16_le_def nth_append)
  from truncated_ozt_is_unsupported [OF l m t, of reject_all] l t show ?thesis
    by (simp add: list_all_iff)
qed

text \<open>
  Claim C1 as stated fails: the 22-byte header that declares one pixel has no marker in
  the scan window and declares more data than the buffer holds, and decoding it fails
  with the general error \<open>Unsupported OZ? file\<close>.
\<close>

theorem truncated_data_counterexample:
  "snd (scan_from truncated_ozt 20) = - 1 \<and>
   int (length truncated_ozt)
     < 22 + int16_le (truncated_ozt ! 16) (truncated_ozt ! 17) *
            int16_le (truncated_ozt ! 18) (truncated_ozt ! 19) * 4 \<and>
   snd (convertOzjToBuffer reject_all truncated_ozt) = Inl (Error ''Unsupported OZ? file'')"
proof -
  have n: "snd (scan_from truncated_ozt 20) = - 1"
    by (simp add: scan_from_none truncated_ozt_no_marker)
  have l: "22 \<le> length truncated_ozt" by (simp add: truncated_ozt_def)
  have t: "int (length truncated_ozt)
      < 22 + int16_le (truncated_ozt ! 16) (truncated_ozt ! 17) *
             int16_le (truncated_ozt ! 18) (truncated_ozt ! 19) * 4"
    by (simp add: truncated_ozt_def int16_le_def nth_append)
  from convert_header [OF n l] truncated_not_ok [OF t] n t show ?thesis by simp
qed

text \<open>
  Claim C10. A buffer of fewer than 22 bytes has no marker in the scan window, and
  decoding it fails with the message \<open>File too small for OZT\<close> without reading a single
  byte, so before any header field is read. This differs from the failure
  \<open>Unsupported OZ? file\<close> of a buffer of at least 22 bytes with no marker that fails
  the validation of the header.
\<close>

theorem too_small_message:
  "(length u8 < 22 \<longrightarrow>
      snd (scan_from u8 20) = - 1 \<and>
      convertOzjToBuffer sharp u8 = ([], Inl (Error ''File too small for OZT''))) \<and>
   (22 \<le> length v8 \<and> snd (scan_from v8 20) = - 1 \<and> \<not> ozt_header_ok v8 \<longrightarrow>
      snd (convertOzjToBuffer sharp v8) = Inl (Error ''Unsupported OZ? file'')) \<and>
   Error ''File too small for OZT'' \<noteq> Error ''Unsupported OZ? file''"
proof (intro conjI impI)
  assume "length u8 < 22"
  then show "snd (scan_from u8 20) = - 1" by (simp add: scan_from_short)
next
  assume "length u8 < 22"
  then show "convertOzjToBuffer sharp u8 = ([], Inl (Error ''File too small for OZT''))"
    by (rule convert_small)
next
  assume "22 \<le> length v8 \<and> snd (scan_from v8 20) = - 1 \<and> \<not> ozt_header_ok v8"
  then show "snd (convertOzjToBuffer sharp v8) = Inl (Error ''Unsupported OZ? file'')"
    using convert_header [of v8 sharp] by simp
next
  show "Error ''File too small for OZT'' \<noteq> Error ''Unsupported OZ? file''" by simp
qed

text \<open>Claim C10 at a three-byte buffer and at the 22-byte header that declares one pixel.\<close>

theorem too_small_message_witness:
  "length ([0xff, 0xd8, 0xff] :: bytes) < 22 \<and>
   convertOzjToBuffer reject_all [0xff, 0xd8, 0xff] = ([], Inl (Error ''File too small for OZT'')) \<and>
   22 \<le> length truncated_ozt \<and> \<not> ozt_header_ok truncated_ozt \<and>
   snd (convertOzjToBuffer reject_all truncated_ozt) = Inl (Error ''Unsupported OZ? file'')"
proof -
  have a: "length ([0xff, 0xd8, 0xff] :: bytes) < 22" by simp
  have b: "22 \<le> length truncated_ozt" by (simp add: truncated_ozt_def)
  have c: "snd (scan_from truncated_ozt 20) = - 1"
    by (simp add: scan_from_none truncated_ozt_no_marker)
  have d: "\<not> ozt_header_ok truncated_ozt"
    by (simp add: ozt_header_ok_def truncated_ozt_def int16_le_def nth_append)
  from too_small_message [of "[0xff, 0xd8, 0xff]" reject_all truncated_ozt] a b c d
  show ?thesis by blast
qed

subsection \<open>The decoded pixels\<close>

lemma quad_index: "y < h \<Longrightarrow> x < w \<Longrightarrow> y * w + x < h * (w::nat)"
proof -
  assume y: "y < h" and x: "x < w"
  have "y * w + x < y * w + w" using x by simp
  also have "\<dots> = (y + 1) * w" by simp
  also have "\<dots> \<le> h * w" using y by (intro mult_le_mono1) simp
  finally show ?thesis .
qed

lemma decoded_nth:
  "j < n \<Longrightarrow> bgra_src j < length src \<Longrightarrow> decoded src n ! j = src ! bgra_src j"
  by (simp add: decoded_def u8_get_def to_u8_def)

lemma decoded_quad:
  assumes "q < n" "22 + 4 * n \<le> length src"
  shows "decoded src (4 * n) ! (4 * q) = src ! (22 + 4 * q + 2)"
    "decoded src (4 * n) ! (4 * q + 1) = src ! (22 + 4 * q + 1)"
    "decoded src (4 * n) ! (4 * q + 2) = src ! (22 + 4 * q)"
    "decoded src (4 * n) ! (4 * q + 3) = src ! (22 + 4 * q + 3)"
  using assms by (simp_all add: decoded_nth bgra_src_quad bgra_src_Suc)

lemma ozt_example_no_marker:
  assumes "length reserved = 16" "20 \<le> k" "k \<le> 29"
  shows "\<not> marker_at (ozt_example reserved r) k"
proof -
  from assms(2,3) have "k = 20 \<or> k = 21 \<or> k = 22 \<or> k = 23 \<or> k = 24 \<or> k = 25 \<or> k = 26
      \<or> k = 27 \<or> k = 28 \<or> k = 29" by arith
  then show ?thesis
    using assms(1) by (elim disjE) (simp_all add: marker_at_def ozt_example_def nth_append)
qed

lemma ozt_example_decoded:
  assumes "length reserved = 16"
  shows "decoded (ozt_example reserved r) 8 = [0xFF, 0x00, 0x00, 0xFF, 0x30, 0x20, 0x10, 0xFF]"
proof -
  have u: "[0..<8] = [0, 1, 2, 3, 4, 5, 6, 7]" by (simp add: upt_rec)
  show ?thesis
    using assms
    by (simp add: decoded_def u bgra_src_def u8_get_def to_u8_def ozt_example_def nth_append)
qed

text \<open>
  Claim C3. For every buffer handled as OZT with validated width \<open>w\<close> and height \<open>h\<close>,
  the decoder returns a bitmap of width \<open>w\<close> and height \<open>h\<close> with \<open>4 * w * h\<close> bytes,
  whose pixel at row \<open>y\<close> and column \<open>x\<close> is the source quad number \<open>y * w + x\<close>
  counted from byte offset 22, its bytes B, G, R, A reordered to R, G, B, A, with no
  reordering of rows. In particular the header with width 2, height 1 and depth 32
  followed by \<open>00 00 FF FF 10 20 30 FF\<close> decodes to the pixels \<open>(FF, 00, 00, FF)\<close> and
  \<open>(30, 20, 10, FF)\<close>.
\<close>

theorem ozt_pixels:
  "(22 \<le> length u8 \<and> (\<forall>k. 20 \<le> k \<and> k \<le> 29 \<longrightarrow> \<not> marker_at u8 k) \<and> ozt_header_ok u8 \<and>
    int16_le (u8 ! 16) (u8 ! 17) = int w \<and> int16_le (u8 ! 18) (u8 ! 19) = int h \<longrightarrow>
      (\<exists>img. snd (convertOzjToBuffer sharp u8) = Inr img \<and>
         width img = int w \<and> height img = int h \<and> length (buffer img) = 4 * (w * h) \<and>
         (\<forall>y x. y < h \<and> x < w \<longrightarrow>
            buffer img ! (4 * (y * w + x)) = u8 ! (22 + 4 * (y * w + x) + 2) \<and>
            buffer img ! (4 * (y * w + x) + 1) = u8 ! (22 + 4 * (y * w + x) + 1) \<and>
            buffer img ! (4 * (y * w + x) + 2) = u8 ! (22 + 4 * (y * w + x)) \<and>
            buffer img ! (4 * (y * w + x) + 3) = u8 ! (22 + 4 * (y * w + x) + 3)))) \<and>
   (length reserved = 16 \<longrightarrow>
      snd (convertOzjToBuffer sharp (ozt_example reserved r)) =
        Inr \<lparr>buffer = [0xFF, 0x00, 0x00, 0xFF, 0x30, 0x20, 0x10, 0xFF], width = 2, height = 1\<rparr>)"
proof (intro conjI impI)
  assume a: "22 \<le> length u8 \<and> (\<forall>k. 20 \<le> k \<and> k \<le> 29 \<longrightarrow> \<not> marker_at u8 k) \<and> ozt_header_ok u8 \<and>
    int16_le (u8 ! 16) (u8 ! 17) = int w \<and> int16_le (u8 ! 18) (u8 ! 19) = int h"
  then have n: "snd (scan_from u8 20) = - 1" and l: "22 \<le> length u8" and ok: "ozt_header_ok u8"
    and w: "int16_le (u8 ! 16) (u8 ! 17) = int w" and h: "int16_le (u8 ! 18) (u8 ! 19) = int h"
    by (simp_all add: scan_from_none)
  let ?img = "\<lparr>buffer = decoded u8 (4 * (w * h)), width = int w, height = int h\<rparr>"
  have r: "snd (convertOzjToBuffer sharp u8) = Inr ?img"
    using convert_header [OF n l, of sharp] ok by (simp add: w h oztToPng_decoded)
  from ok have "22 + int w * int h * 4 \<le> int (length u8)"
    by (simp add: ozt_header_ok_def Let_def w h)
  then have "int (22 + 4 * (w * h)) \<le> int (length u8)" by (simp add: algebra_simps)
  then have fit: "22 + 4 * (w * h) \<le> length u8" by (simp only: of_nat_le_iff)
  have px: "buffer ?img ! (4 * (y * w + x)) = u8 ! (22 + 4 * (y * w + x) + 2) \<and>
            buffer ?img ! (4 * (y * w + x) + 1) = u8 ! (22 + 4 * (y * w + x) + 1) \<and>
            buffer ?img ! (4 * (y * w + x) + 2) = u8 ! (22 + 4 * (y * w + x)) \<and>
            buffer ?img ! (4 * (y * w + x) + 3) = u8 ! (22 + 4 * (y * w + x) + 3)"
    if "y < h \<and> x < w" for y x
  proof -
    from that have "y * w + x < h * w" by (simp add: quad_index)
    then have q: "y * w + x < w * h" by (simp add: mult.commute)
    from decoded_quad [OF q fit] show ?thesis by simp
  qed
  show "\<exists>img. snd (convertOzjToBuffer sharp u8) = Inr img \<and>
         width img = int w \<and> height img = int h \<and> length (buffer img) = 4 * (w * h) \<and>
         (\<forall>y x. y < h \<and> x < w \<longrightarrow>
            buffer img ! (4 * (y * w + x)) = u8 ! (22 + 4 * (y * w + x) + 2) \<and>
            buffer img ! (4 * (y * w + x) + 1) = u8 ! (22 + 4 * (y * w + x) + 1) \<and>
            buffer img ! (4 * (y * w + x) + 2) = u8 ! (22 + 4 * (y * w + x)) \<and>
            buffer img ! (4 * (y * w + x) + 3) = u8 ! (22 + 4 * (y * w + x) + 3))"
  proof (intro exI [of _ ?img] conjI allI impI)
    show "snd (convertOzjToBuffer sharp u8) = Inr ?img" by (rule r)
    show "length (buffer ?img) = 4 * (w * h)" by (simp add: decoded_def)
  qed (use px in simp_all)
next
  assume len: "length reserved = 16"
  let ?b = "ozt_example reserved r"
  have n: "snd (scan_from ?b 20) = - 1"
    using ozt_example_no_marker [OF len] by (simp add: scan_from_none)
  have l: "22 \<le> length ?b" using len by (simp add: ozt_example_def)
  have w: "int16_le (?b ! 16) (?b ! 17) = int 2" and h: "int16_le (?b ! 18) (?b ! 19) = int 1"
    using len by (simp_all add: ozt_example_def int16_le_def nth_append)
  have ok: "ozt_header_ok ?b"
    unfolding ozt_header_ok_def Let_def w h using len by (simp add: ozt_example_def nth_append)
  have "snd (convertOzjToBuffer sharp ?b) = snd (oztToPng ?b (int 2) (int 1))"
    using convert_header [OF n l, of sharp] ok by (simp only: w h if_True snd_conv)
  also have "\<dots> = Inr \<lparr>buffer = decoded ?b (4 * (2 * 1)), width = int 2, height = int 1\<rparr>"
    by (rule oztToPng_decoded)
  finally show "snd (convertOzjToBuffer sharp ?b) =
      Inr \<lparr>buffer = [0xFF, 0x00, 0x00, 0xFF, 0x30, 0x20, 0x10, 0xFF], width = 2, height = 1\<rparr>"
    using ozt_example_decoded [OF len, of r] by simp
qed

text \<open>Claim C3 at the example buffer with a zeroed header, pixel by pixel.\<close>

theorem ozt_pixels_witness:
  "\<exists>img. snd (convertOzjToBuffer reject_all (ozt_example (replicate 16 0) 0)) = Inr img \<and>
     width img = 2 \<and> height img = 1 \<and> length (buffer img) = 8 \<and>
     buffer img ! 0 = 0xFF \<and> buffer img ! 1 = 0x00 \<and> buffer img ! 2 = 0x00 \<and> buffer img ! 3 = 0xFF \<and>
     buffer img ! 4 = 0x30 \<and> buffer img ! 5 = 0x20 \<and> buffer img ! 6 = 0x10 \<and> buffer img ! 7 = 0xFF"
proof -
  let ?b = "ozt_example (replicate 16 0) 0"
  have len: "length (replicate 16 (0::byte)) = 16" by simp
  have l: "22 \<le> length ?b" by (simp add: ozt_example_def)
  have nm: "\<forall>k. 20 \<le> k \<and> k \<le> 29 \<longrightarrow> \<not> marker_at ?b k"
    using ozt_example_no_marker [OF len] by blast
  have w: "int16_le (?b ! 16) (?b ! 17) = int 2" and h: "int16_le (?b ! 18) (?b ! 19) = int 1"
    by (simp_all add: ozt_example_def int16_le_def nth_append)
  have ok: "ozt_header_ok ?b"
    unfolding ozt_header_ok_def Let_def w h by (simp add: ozt_example_def nth_append)
  from ozt_pixels [of ?b 2 1 reject_all "replicate 16 0" 0] l nm ok w h
  obtain img where i: "snd (convertOzjToBuffer reject_all ?b) = Inr img"
    "width img = int 2" "height img = int 1" "length (buffer img) = 4 * (2 * 1)"
    and px: "\<forall>y x. y < 1 \<and> x < 2 \<longrightarrow>
            buffer img ! (4 * (y * 2 + x)) = ?b ! (22 + 4 * (y * 2 + x) + 2) \<and>
            buffer img ! (4 * (y * 2 + x) + 1) = ?b ! (22 + 4 * (y * 2 + x) + 1) \<and>
            buffer img ! (4 * (y * 2 + x) + 2) = ?b ! (22 + 4 * (y * 2 + x)) \<and>
            buffer img ! (4 * (y * 2 + x) + 3) = ?b ! (22 + 4 * (y * 2 + x) + 3)"
    by blast
  from px [rule_format, of 0 0] px [rule_format, of 0 1] i show ?thesis
    by (intro exI [of _ img]) (simp add: ozt_example_def nth_append numeral_2_eq_2)
qed

subsection \<open>The embedded stream and the codec\<close>

lemma ozjToPng_snd:
  "18 \<le> length u8 \<Longrightarrow> snd (ozjToPng sharp u8 (int k)) = codec_outcome sharp (drop k u8)"
  by (simp add: ozjToPng_def bind_run_def getUint8_def slice_from_def codec_outcome_def Let_def
        split: sum.splits prod.splits)

lemma ozjToPng_calls:
  "18 \<le> length u8 \<Longrightarrow>
   filter is_codec_call (fst (ozjToPng sharp u8 (int k))) = codec_calls sharp (drop k u8)"
  by (simp add: ozjToPng_def bind_run_def getUint8_def slice_from_def codec_calls_def Let_def
        split: sum.splits prod.splits)

lemma reads_no_calls:
  "\<forall>e \<in> set evs. \<exists>n. e = Read n \<Longrightarrow> filter is_codec_call evs = []"
  by (induction evs) auto

lemma scan_no_calls: "filter is_codec_call (fst (scan_from u8 i)) = []"
  using scan_from_reads [of _ u8 i] by (intro reads_no_calls) blast

lemma marker_at_update:
  "17 < j \<Longrightarrow> marker_at (u8[17 := b]) j = marker_at u8 j"
  by (simp add: marker_at_def)

text \<open>
  Claim C7. For every buffer handled as OZJ with the embedded stream at offset \<open>k\<close>, the
  codec is called on exactly the suffix of the buffer that starts at byte \<open>k\<close>: one
  decode, followed by one metadata query when the decode succeeds. The result is the
  codec's pixel buffer with the codec's dimensions, and it does not depend on header byte
  17, so no flip is applied. If the codec rejects the stream, the decoder fails with
  \<open>Failed to decode JPEG:\<close> followed by the codec's message, after that single call.
\<close>

theorem ozj_suffix_to_codec:
  assumes "20 \<le> k" and "k \<le> 29" and "marker_at u8 k"
    and "\<forall>j. 20 \<le> j \<and> j < k \<longrightarrow> \<not> marker_at u8 j"
  shows "snd (convertOzjToBuffer sharp u8) = codec_outcome sharp (drop k u8) \<and>
         filter is_codec_call (fst (convertOzjToBuffer sharp u8)) = codec_calls sharp (drop k u8) \<and>
         snd (convertOzjToBuffer sharp (u8[17 := b])) = snd (convertOzjToBuffer sharp u8)"
proof -
  have found: "snd (scan_from v 20) = int k"
    if "marker_at v k" "\<forall>j. 20 \<le> j \<and> j < k \<longrightarrow> \<not> marker_at v j" for v
    using assms(1,2) that by (intro scan_from_found) auto
  have len: "18 \<le> length u8" using assms(1,3) by (simp add: marker_at_def)
  have conv: "convertOzjToBuffer sharp v =
      (fst (scan_from v 20) @ fst (ozjToPng sharp v (int k)), snd (ozjToPng sharp v (int k)))"
    if "snd (scan_from v 20) = int k" for v
    using convert_ozj [of v sharp] that by simp
  have s: "snd (scan_from u8 20) = int k" using found assms(3,4) by blast
  have s': "snd (scan_from (u8[17 := b]) 20) = int k"
    using assms by (intro found) (simp_all add: marker_at_update)
  have d: "drop k (u8[17 := b]) = drop k u8" using assms(1) by simp
  have r: "snd (convertOzjToBuffer sharp u8) = codec_outcome sharp (drop k u8)"
    using conv [OF s] len by (simp add: ozjToPng_snd)
  have r': "snd (convertOzjToBuffer sharp (u8[17 := b])) = codec_outcome sharp (drop k u8)"
    using conv [OF s'] len by (simp add: ozjToPng_snd d)
  have c: "filter is_codec_call (fst (convertOzjToBuffer sharp u8)) = codec_calls sharp (drop k u8)"
    using conv [OF s] len by (simp add: ozjToPng_calls scan_no_calls)
  from r r' c show ?thesis by simp
qed

lemma ozj_example_marker: "marker_at ozj_example 24"
  by (simp add: marker_at_def ozj_example_def nth_append)

lemma ozj_example_first:
  assumes "20 \<le> j" "j < 24"
  shows "\<not> marker_at ozj_example j"
proof -
  from assms have "j = 20 \<or> j = 21 \<or> j = 22 \<or> j = 23" by arith
  then show ?thesis
    by (elim disjE) (simp_all add: marker_at_def ozj_example_def nth_append)
qed

text \<open>Claim C7 at a buffer with the marker at offset 24, for both codecs.\<close>

theorem ozj_suffix_to_codec_witness:
  "snd (convertOzjToBuffer accept_1x1 ozj_example) =
     Inr \<lparr>buffer = [1, 2, 3, 255], width = 1, height = 1\<rparr> \<and>
   filter is_codec_call (fst (convertOzjToBuffer accept_1x1 ozj_example)) =
     [SharpToBuffer [0xff, 0xd8, 0xff, 0xe0, 0x00, 0x10],
      SharpMetadata [0xff, 0xd8, 0xff, 0xe0, 0x00, 0x10]] \<and>
   snd (convertOzjToBuffer reject_all ozj_example) =
     Inl (Error ''Failed to decode JPEG: Error: unsupported image format'') \<and>
   filter is_codec_call (fst (convertOzjToBuffer reject_all ozj_example)) =
     [SharpToBuffer [0xff, 0xd8, 0xff, 0xe0, 0x00, 0x10]]"
proof -
  have a: "(20::nat) \<le> 24" "(24::nat) \<le> 29" by simp_all
  have f: "\<forall>j. 20 \<le> j \<and> j < 24 \<longrightarrow> \<not> marker_at ozj_example j"
    using ozj_example_first by blast
  have d: "drop 24 ozj_example = [0xff, 0xd8, 0xff, 0xe0, 0x00, 0x10]"
    by (simp add: ozj_example_def)
  from ozj_suffix_to_codec [OF a ozj_example_marker f, of accept_1x1 0]
       ozj_suffix_to_codec [OF a ozj_example_marker f, of reject_all 0]
  show ?thesis
    by (simp add: d codec_outcome_def codec_calls_def accept_1x1_def reject_all_def)
qed


section \<open>The binder: proofs\<close>

subsection \<open>Materials under the two loops of the first binder\<close>

lemma materials_emit [simp]: "materials (emit evs w) = materials w"
  by (simp add: emit_def)

lemma materials_install_map:
  "materials (install_map tex a w) =
     (materials w)(a := (materials w a)\<lparr>mat_map := Some tex, mat_color := 0xffffff\<rparr>)"
  by (simp add: install_map_def Let_def)

lemma materials_update_material:
  "materials (update_material a f w) = (materials w)(a := f (materials w a))"
  by (simp add: update_material_def)

lemma apply_oz_other:
  "\<not> (me_isMatch m \<and> material (me_mesh m) = a) \<Longrightarrow>
   materials (fst (apply_oz tex fileExt m st)) a = materials (fst st) a"
  by (auto simp: apply_oz_def Let_def materials_install_map materials_update_material)

lemma apply_plain_other:
  "\<not> (me_isMatch m \<and> material (me_mesh m) = a) \<Longrightarrow>
   materials (fst (apply_plain tex m st)) a = materials (fst st) a"
  by (auto simp: apply_plain_def Let_def materials_install_map materials_update_material)

lemma fold_apply_oz_other:
  "\<forall>m \<in> set ml. \<not> (me_isMatch m \<and> material (me_mesh m) = a) \<Longrightarrow>
   materials (fst (fold (apply_oz tex fileExt) ml st)) a = materials (fst st) a"
  by (induction ml arbitrary: st) (simp_all add: apply_oz_other)

lemma fold_apply_plain_other:
  "\<forall>m \<in> set ml. \<not> (me_isMatch m \<and> material (me_mesh m) = a) \<Longrightarrow>
   materials (fst (fold (apply_plain tex) ml st)) a = materials (fst st) a"
  by (induction ml arbitrary: st) (simp_all add: apply_plain_other)

lemma apply_oz_bound:
  "me_isMatch m \<Longrightarrow> bound_oz tex fileExt (materials (fst (apply_oz tex fileExt m st)) (material (me_mesh m)))"
  by (simp add: apply_oz_def Let_def materials_install_map materials_update_material bound_oz_def
        flags_def set_transparent_def set_opaque_def set_needsUpdate_def)

lemma apply_oz_keeps:
  "bound_oz tex fileExt (materials (fst st) a) \<Longrightarrow>
   bound_oz tex fileExt (materials (fst (apply_oz tex fileExt m st)) a)"
  by (cases "me_isMatch m \<and> material (me_mesh m) = a") (auto simp: apply_oz_bound apply_oz_other)

lemma fold_apply_oz_keeps:
  "bound_oz tex fileExt (materials (fst st) a) \<Longrightarrow>
   bound_oz tex fileExt (materials (fst (fold (apply_oz tex fileExt) ml st)) a)"
  by (induction ml arbitrary: st) (simp_all add: apply_oz_keeps)

lemma fold_apply_oz_bound:
  "m \<in> set ml \<Longrightarrow> me_isMatch m \<Longrightarrow>
   bound_oz tex fileExt (materials (fst (fold (apply_oz tex fileExt) ml st)) (material (me_mesh m)))"
proof (induction ml arbitrary: st)
  case Nil
  then show ?case by simp
next
  case (Cons x ml)
  show ?case
  proof (cases "m = x")
    case True
    with Cons.prems show ?thesis by (simp add: fold_apply_oz_keeps apply_oz_bound)
  next
    case False
    with Cons show ?thesis by simp
  qed
qed

lemma apply_plain_flags:
  "flags (materials (fst (apply_plain tex m st)) a) = flags (materials (fst st) a)"
  by (simp add: apply_plain_def Let_def materials_install_map materials_update_material
        flags_def set_needsUpdate_def)

lemma fold_apply_plain_flags:
  "flags (materials (fst (fold (apply_plain tex) ml st)) a) = flags (materials (fst st) a)"
  by (induction ml arbitrary: st) (simp_all add: apply_plain_flags)

lemma apply_plain_bound:
  "me_isMatch m \<Longrightarrow>
   bound_plain tex (materials (fst st) (material (me_mesh m)))
     (materials (fst (apply_plain tex m st)) (material (me_mesh m)))"
  by (simp add: apply_plain_def Let_def materials_install_map materials_update_material
        bound_plain_def flags_def set_needsUpdate_def)

lemma apply_plain_keeps:
  "bound_plain tex old (materials (fst st) a) \<Longrightarrow>
   bound_plain tex old (materials (fst (apply_plain tex m st)) a)"
  by (auto simp: apply_plain_def Let_def materials_install_map materials_update_material
        bound_plain_def flags_def set_needsUpdate_def)

lemma fold_apply_plain_keeps:
  "bound_plain tex old (materials (fst st) a) \<Longrightarrow>
   bound_plain tex old (materials (fst (fold (apply_plain tex) ml st)) a)"
  by (induction ml arbitrary: st) (simp_all add: apply_plain_keeps)

lemma fold_apply_plain_bound:
  "m \<in> set ml \<Longrightarrow> me_isMatch m \<Longrightarrow>
   bound_plain tex (materials (fst st) (material (me_mesh m)))
     (materials (fst (fold (apply_plain tex) ml st)) (material (me_mesh m)))"
proof (induction ml arbitrary: st)
  case Nil
  then show ?case by simp
next
  case (Cons x ml)
  show ?case
  proof (cases "me_isMatch x \<and> material (me_mesh x) = material (me_mesh m)")
    case True
    then have "bound_plain tex (materials (fst st) (material (me_mesh m)))
        (materials (fst (apply_plain tex x st)) (material (me_mesh m)))"
      using apply_plain_bound [of x tex st] by simp
    then show ?thesis by (simp add: fold_apply_plain_keeps)
  next
    case False
    then have "m \<noteq> x" using Cons.prems by auto
    with Cons.prems have "m \<in> set ml" by simp
    from Cons.IH [OF this Cons.prems(2), of "apply_plain tex x st"] False
    show ?thesis by (simp add: apply_plain_other)
  qed
qed

lemma fold_apply_oz_applied:
  "snd (fold (apply_oz tex fileExt) ml st) \<longleftrightarrow> snd st \<or> (\<exists>m \<in> set ml. me_isMatch m)"
  by (induction ml arbitrary: st) (auto simp: apply_oz_def Let_def)

lemma fold_apply_plain_applied:
  "snd (fold (apply_plain tex) ml st) \<longleftrightarrow> snd st \<or> (\<exists>m \<in> set ml. me_isMatch m)"
  by (induction ml arbitrary: st) (auto simp: apply_plain_def Let_def)

lemma trace_fold_apply_oz_none:
  "\<forall>m \<in> set ml. \<not> me_isMatch m \<Longrightarrow> fold (apply_oz tex fileExt) ml st = st"
  by (induction ml arbitrary: st) (simp_all add: apply_oz_def)

lemma trace_fold_apply_plain_none:
  "\<forall>m \<in> set ml. \<not> me_isMatch m \<Longrightarrow> fold (apply_plain tex) ml st = st"
  by (induction ml arbitrary: st) (simp_all add: apply_plain_def)

subsection \<open>The traversal that builds the mesh list\<close>

lemma build_meshList_skip:
  "wanted obj = None \<Longrightarrow>
   build_meshList lib fileBase fileExt (obj # scene) = build_meshList lib fileBase fileExt scene"
  by (auto simp: wanted_def split: option.splits if_splits)

lemma build_meshList_take:
  "wanted obj = Some p \<Longrightarrow>
   build_meshList lib fileBase fileExt (obj # scene) =
     (case extMatch (snd (normalizeWanted lib p)) fileExt of
        Inl e \<Rightarrow> Inl e
      | Inr b \<Rightarrow>
          (case build_meshList lib fileBase fileExt scene of
             Inl e \<Rightarrow> Inl e
           | Inr rest \<Rightarrow>
               Inr (\<lparr>me_mesh = obj, me_path = p,
                     me_isMatch = (b \<and> fst (normalizeWanted lib p) = fileBase)\<rparr> # rest)))"
  by (auto simp: wanted_def split: option.splits if_splits)

lemma build_meshList_entries:
  "build_meshList lib fileBase fileExt scene = Inr ml \<Longrightarrow>
   m \<in> set ml \<Longrightarrow>
   \<exists>obj \<in> set scene. \<exists>p. me_mesh m = obj \<and> wanted obj = Some p \<and>
     (me_isMatch m \<longleftrightarrow> extMatch (snd (normalizeWanted lib p)) fileExt = Inr True \<and>
                         fst (normalizeWanted lib p) = fileBase)"
proof (induction scene arbitrary: ml)
  case Nil
  then show ?case by simp
next
  case (Cons obj scene)
  show ?case
  proof (cases "wanted obj")
    case None
    with Cons.prems have "build_meshList lib fileBase fileExt scene = Inr ml"
      by (simp only: build_meshList_skip)
    from Cons.IH [OF this Cons.prems(2)] show ?thesis by auto
  next
    case (Some p)
    from Cons.prems(1) obtain b rest where
      b: "extMatch (snd (normalizeWanted lib p)) fileExt = Inr b"
      and rest: "build_meshList lib fileBase fileExt scene = Inr rest"
      and ml: "ml = \<lparr>me_mesh = obj, me_path = p,
                     me_isMatch = (b \<and> fst (normalizeWanted lib p) = fileBase)\<rparr> # rest"
      unfolding build_meshList_take [OF Some] by (auto split: sum.splits)
    show ?thesis
    proof (cases "m \<in> set rest")
      case True
      from Cons.IH [OF rest True] show ?thesis by auto
    next
      case False
      with Cons.prems(2) ml have "m = \<lparr>me_mesh = obj, me_path = p,
                     me_isMatch = (b \<and> fst (normalizeWanted lib p) = fileBase)\<rparr>" by simp
      with Some b show ?thesis by auto
    qed
  qed
qed

lemma build_meshList_complete:
  "build_meshList lib fileBase fileExt scene = Inr ml \<Longrightarrow>
   obj \<in> set scene \<Longrightarrow> wanted obj = Some p \<Longrightarrow>
   \<exists>m \<in> set ml. me_mesh m = obj \<and>
     (me_isMatch m \<longleftrightarrow> extMatch (snd (normalizeWanted lib p)) fileExt = Inr True \<and>
                         fst (normalizeWanted lib p) = fileBase)"
proof (induction scene arbitrary: ml)
  case Nil
  then show ?case by simp
next
  case (Cons o' scene)
  show ?case
  proof (cases "wanted o'")
    case None
    with Cons.prems have r: "build_meshList lib fileBase fileExt scene = Inr ml"
      by (simp only: build_meshList_skip)
    from None Cons.prems have "obj \<in> set scene" by auto
    from Cons.IH [OF r this Cons.prems(3)] show ?thesis .
  next
    case (Some q)
    from Cons.prems(1) obtain b rest where
      b: "extMatch (snd (normalizeWanted lib q)) fileExt = Inr b"
      and rest: "build_meshList lib fileBase fileExt scene = Inr rest"
      and ml: "ml = \<lparr>me_mesh = o', me_path = q,
                     me_isMatch = (b \<and> fst (normalizeWanted lib q) = fileBase)\<rparr> # rest"
      unfolding build_meshList_take [OF Some] by (auto split: sum.splits)
    show ?thesis
    proof (cases "obj = o'")
      case True
      with Some Cons.prems(3) have "q = p" by simp
      with True b ml show ?thesis by auto
    next
      case False
      with Cons.prems have "obj \<in> set scene" by simp
      from Cons.IH [OF rest this Cons.prems(3)] ml show ?thesis by auto
    qed
  qed
qed

lemma extMatch_error: "extMatch a b = Inl e \<Longrightarrow> e = TypeError"
  by (cases "equivExt a"; cases "equivExt b")
     (auto simp: extMatch_def split: if_splits sum.splits bool.splits)

lemma build_meshList_defined:
  "\<forall>obj \<in> set scene. match_defined lib filePath obj \<Longrightarrow>
   \<exists>ml. build_meshList lib fileBase (file_ext lib filePath) scene = Inr ml"
proof (induction scene)
  case Nil
  then show ?case by simp
next
  case (Cons obj scene)
  then obtain rest where rest: "build_meshList lib fileBase (file_ext lib filePath) scene = Inr rest"
    by auto
  show ?case
  proof (cases "wanted obj")
    case None
    with rest show ?thesis by (simp only: build_meshList_skip) simp
  next
    case (Some p)
    from Cons.prems Some have "extMatch (snd (normalizeWanted lib p)) (file_ext lib filePath) \<noteq> Inl TypeError"
      by (simp add: match_defined_def)
    then obtain b where "extMatch (snd (normalizeWanted lib p)) (file_ext lib filePath) = Inr b"
      using extMatch_error by (cases "extMatch (snd (normalizeWanted lib p)) (file_ext lib filePath)") auto
    with rest show ?thesis by (simp only: build_meshList_take [OF Some]) simp
  qed
qed

subsection \<open>The outcomes of \<open>loadAndApplyTexture\<close>\<close>

lemma laat_load_failed:
  "snd (load_texture rf lib filePath) = Inl e \<Longrightarrow>
   loadAndApplyTexture rf lib scene w filePath = (emit (fst (load_texture rf lib filePath)) w, Some e)"
  by (simp add: loadAndApplyTexture_def Let_def)

lemma laat_match_failed:
  "snd (load_texture rf lib filePath) = Inr tex \<Longrightarrow>
   build_meshList lib (file_base lib filePath) (file_ext lib filePath) scene = Inl e \<Longrightarrow>
   loadAndApplyTexture rf lib scene w filePath = (emit (fst (load_texture rf lib filePath)) w, Some e)"
  by (simp add: loadAndApplyTexture_def Let_def file_base_def file_ext_def)

lemma laat_applied:
  "snd (load_texture rf lib filePath) = Inr tex \<Longrightarrow>
   build_meshList lib (file_base lib filePath) (file_ext lib filePath) scene = Inr ml \<Longrightarrow>
   loadAndApplyTexture rf lib scene w filePath =
     (let st = (if file_ext lib filePath = ''ozj'' \<or> file_ext lib filePath = ''ozt''
                then fold (apply_oz tex (file_ext lib filePath)) ml
                       (emit (fst (load_texture rf lib filePath)) w, False)
                else fold (apply_plain tex) ml
                       (emit (fst (load_texture rf lib filePath)) w, False))
      in (if \<not> snd st then emit [no_match_warning (path_basename filePath)] (fst st)
          else fst st, None))"
  by (simp add: loadAndApplyTexture_def Let_def file_base_def file_ext_def)

lemma entries_accepts:
  assumes b: "build_meshList lib (file_base lib filePath) (file_ext lib filePath) scene = Inr ml"
    and m: "m \<in> set ml"
  shows "me_mesh m \<in> set scene \<and> wanted (me_mesh m) \<noteq> None \<and>
         (me_isMatch m \<longleftrightarrow> accepts lib filePath (me_mesh m))"
  using build_meshList_entries [OF b m] by (auto simp: accepts_def)

lemma complete_accepts:
  assumes b: "build_meshList lib (file_base lib filePath) (file_ext lib filePath) scene = Inr ml"
    and o: "obj \<in> set scene" and a: "accepts lib filePath obj"
  shows "\<exists>m \<in> set ml. me_mesh m = obj \<and> me_isMatch m"
proof -
  from a obtain p where p: "wanted obj = Some p" by (auto simp: accepts_def split: option.splits)
  from build_meshList_complete [OF b o p] a p show ?thesis by (auto simp: accepts_def)
qed

lemma laat_frame:
  assumes r: "out_of_reach lib scene filePath a"
  shows "materials (fst (loadAndApplyTexture rf lib scene w filePath)) a = materials w a"
proof (cases "snd (load_texture rf lib filePath)")
  case (Inl e)
  then show ?thesis by (simp add: laat_load_failed)
next
  case (Inr tex)
  show ?thesis
  proof (cases "build_meshList lib (file_base lib filePath) (file_ext lib filePath) scene")
    case (Inl e)
    with Inr show ?thesis by (simp add: laat_match_failed)
  next
    case ml: (Inr ml)
    have none: "\<forall>m \<in> set ml. \<not> (me_isMatch m \<and> material (me_mesh m) = a)"
    proof (intro ballI notI)
      fix m assume m: "m \<in> set ml" and h: "me_isMatch m \<and> material (me_mesh m) = a"
      from entries_accepts [OF ml m] h
      have "me_mesh m \<in> set scene" "accepts lib filePath (me_mesh m)" by simp_all
      with r h show False by (auto simp: out_of_reach_def list_all_iff)
    qed
    show ?thesis
      unfolding laat_applied [OF Inr ml] Let_def
      by (simp add: fold_apply_oz_other [OF none] fold_apply_plain_other [OF none])
  qed
qed

subsection \<open>The events of a bind\<close>

lemma install_map_trace:
  "\<exists>ds. trace (install_map tex a w) = trace w @ ds \<and> list_all is_dispose ds"
  by (cases "mat_map (materials w a)") (simp_all add: install_map_def Let_def)

lemma trace_update_material [simp]: "trace (update_material a f w) = trace w"
  by (simp add: update_material_def)

lemma apply_oz_trace:
  "\<exists>ds. trace (fst (apply_oz tex fileExt m st)) = trace (fst st) @ ds \<and> list_all is_dispose ds"
  using install_map_trace [of tex "material (me_mesh m)" "fst st"]
  by (auto simp: apply_oz_def Let_def)

lemma apply_plain_trace:
  "\<exists>ds. trace (fst (apply_plain tex m st)) = trace (fst st) @ ds \<and> list_all is_dispose ds"
  using install_map_trace [of tex "material (me_mesh m)" "fst st"]
  by (auto simp: apply_plain_def Let_def)

lemma fold_apply_oz_trace:
  "\<exists>ds. trace (fst (fold (apply_oz tex fileExt) ml st)) = trace (fst st) @ ds \<and>
        list_all is_dispose ds"
proof (induction ml arbitrary: st)
  case Nil
  then show ?case by simp
next
  case (Cons m ml)
  from apply_oz_trace [of tex fileExt m st] obtain ds1
    where d1: "trace (fst (apply_oz tex fileExt m st)) = trace (fst st) @ ds1"
      "list_all is_dispose ds1" by blast
  from Cons.IH [of "apply_oz tex fileExt m st"] obtain ds2
    where d2: "trace (fst (fold (apply_oz tex fileExt) ml (apply_oz tex fileExt m st)))
        = trace (fst (apply_oz tex fileExt m st)) @ ds2" "list_all is_dispose ds2" by blast
  from d1 d2 show ?case by (intro exI [of _ "ds1 @ ds2"]) simp
qed

lemma fold_apply_plain_trace:
  "\<exists>ds. trace (fst (fold (apply_plain tex) ml st)) = trace (fst st) @ ds \<and>
        list_all is_dispose ds"
proof (induction ml arbitrary: st)
  case Nil
  then show ?case by simp
next
  case (Cons m ml)
  from apply_plain_trace [of tex m st] obtain ds1
    where d1: "trace (fst (apply_plain tex m st)) = trace (fst st) @ ds1"
      "list_all is_dispose ds1" by blast
  from Cons.IH [of "apply_plain tex m st"] obtain ds2
    where d2: "trace (fst (fold (apply_plain tex) ml (apply_plain tex m st)))
        = trace (fst (apply_plain tex m st)) @ ds2" "list_all is_dispose ds2" by blast
  from d1 d2 show ?case by (intro exI [of _ "ds1 @ ds2"]) simp
qed

subsection \<open>The second binder\<close>

lemma apply_named_other:
  "\<not> (named_match lib textureName obj \<and> material obj = a) \<Longrightarrow>
   materials (apply_named lib textureName tex obj w) a = materials w a"
  by (auto simp: apply_named_def named_match_def wanted_def wanted_base_named_def Let_def
        materials_install_map materials_update_material split: option.splits)

lemma fold_apply_named_other:
  "\<forall>obj \<in> set scene. \<not> (named_match lib textureName obj \<and> material obj = a) \<Longrightarrow>
   materials (fold (apply_named lib textureName tex) scene w) a = materials w a"
  by (induction scene arbitrary: w) (simp_all add: apply_named_other)

lemma apply_named_bound:
  "wanted obj = Some p \<Longrightarrow> wanted_base_named lib p = textureName \<Longrightarrow>
   mat_map (materials (apply_named lib textureName tex obj w) (material obj)) = Some tex \<and>
   flags (materials (apply_named lib textureName tex obj w) (material obj)) = named_flags lib tex"
  by (auto simp: apply_named_def wanted_def wanted_base_named_def Let_def named_flags_def
        materials_install_map materials_update_material flags_def set_transparent_def
        set_opaque_def set_needsUpdate_def split: option.splits if_splits)

lemma apply_named_keeps:
  "mat_map (materials w a) = Some tex \<and> flags (materials w a) = named_flags lib tex \<Longrightarrow>
   mat_map (materials (apply_named lib textureName tex obj w) a) = Some tex \<and>
   flags (materials (apply_named lib textureName tex obj w) a) = named_flags lib tex"
  by (auto simp: apply_named_def Let_def named_flags_def
        materials_install_map materials_update_material flags_def set_transparent_def
        set_opaque_def set_needsUpdate_def split: option.splits if_splits)

lemma fold_apply_named_keeps:
  "mat_map (materials w a) = Some tex \<and> flags (materials w a) = named_flags lib tex \<Longrightarrow>
   mat_map (materials (fold (apply_named lib textureName tex) scene w) a) = Some tex \<and>
   flags (materials (fold (apply_named lib textureName tex) scene w) a) = named_flags lib tex"
proof (induction scene arbitrary: w)
  case Nil
  then show ?case by simp
next
  case (Cons x scene)
  from apply_named_keeps [OF Cons.prems] have
    "mat_map (materials (apply_named lib textureName tex x w) a) = Some tex \<and>
     flags (materials (apply_named lib textureName tex x w) a) = named_flags lib tex" .
  from Cons.IH [OF this] show ?case by simp
qed

lemma fold_apply_named_bound:
  "obj \<in> set scene \<Longrightarrow> wanted obj = Some p \<Longrightarrow> wanted_base_named lib p = textureName \<Longrightarrow>
   mat_map (materials (fold (apply_named lib textureName tex) scene w) (material obj)) = Some tex \<and>
   flags (materials (fold (apply_named lib textureName tex) scene w) (material obj)) = named_flags lib tex"
proof (induction scene arbitrary: w)
  case Nil
  then show ?case by simp
next
  case (Cons x scene)
  show ?case
  proof (cases "obj = x")
    case True
    from apply_named_bound [OF Cons.prems(2,3), of tex w]
    have "mat_map (materials (apply_named lib textureName tex obj w) (material obj)) = Some tex \<and>
      flags (materials (apply_named lib textureName tex obj w) (material obj)) = named_flags lib tex" .
    from fold_apply_named_keeps [OF this] True show ?thesis by simp
  next
    case False
    with Cons.prems have "obj \<in> set scene" by simp
    from Cons.IH [OF this Cons.prems(2,3)] show ?thesis by simp
  qed
qed

subsection \<open>Evaluation on the concrete inputs\<close>

lemma lower_accept: "toLowerCase accept_1x1 s = ascii_lower s"
  by (simp add: accept_1x1_def)

lemmas path_defs = normalizeWanted_def lower_accept ascii_lower_def lower_char_def last_segment_def
  is_path_sep_def is_dot_def is_slash_def strip_ext_def path_basename_def path_extname_def
  path_basename_ext_def wanted_base_named_def file_base_def file_ext_def Let_def

lemmas ext_defs = extMatch_def equivExt_def equivExt_table_def object_prototype_names_def

lemma snd_bind_run:
  "snd (bind_run m f) = (case snd m of Inl e \<Rightarrow> Inl e | Inr x \<Rightarrow> snd (f x))"
  by (simp add: bind_run_def split: sum.splits)

lemma wing_tga_accepts_ozt: "accepts accept_1x1 ''/m/wing.ozt'' (mesh_at a ''wing.tga'')"
  by (simp add: accepts_def wanted_def mesh_at_def path_defs ext_defs)

lemma wing_tga_rejects_jpg: "\<not> accepts accept_1x1 ''/m/wing.jpg'' (mesh_at a ''wing.tga'')"
  by (simp add: accepts_def wanted_def mesh_at_def path_defs ext_defs)

lemma wing_tga_accepts_tga: "accepts accept_1x1 ''/m/wing.tga'' (mesh_at a ''wing.tga'')"
  by (simp add: accepts_def wanted_def mesh_at_def path_defs ext_defs)

lemma wing_defined:
  "match_defined accept_1x1 ''/m/wing.ozt'' (mesh_at a ''wing.tga'')"
  "match_defined accept_1x1 ''/m/wing.jpg'' (mesh_at a ''wing.tga'')"
  "match_defined accept_1x1 ''/m/wing.tga'' (mesh_at a ''wing.tga'')"
  by (simp_all add: match_defined_def wanted_def mesh_at_def path_defs ext_defs)

lemma file_ext_examples:
  "file_ext accept_1x1 ''/m/wing.ozt'' = ''ozt''" "file_ext accept_1x1 ''/m/wing.jpg'' = ''jpg''"
  "file_ext accept_1x1 ''/m/wing.tga'' = ''tga''" "file_ext accept_1x1 ''/m/bad.ozt'' = ''ozt''"
  by (simp_all add: path_defs)

lemma load_wing_tga:
  "snd (load_texture disk accept_1x1 ''/m/wing.tga'') =
     Inr \<lparr>tex_name = ''wing.tga'', tex_image = one_pixel,
          tex_src = ''data:image/png;base64,iVBORw==''\<rparr>"
  by (simp add: load_texture_def snd_bind_run disk_def accept_1x1_def convertTgaToBuffer_def
        convertTgaToDataUrl_def to_data_url_def path_defs)

lemma load_wing_jpg:
  "snd (load_texture disk accept_1x1 ''/m/wing.jpg'') =
     Inr \<lparr>tex_name = ''wing.jpg'', tex_image = one_pixel,
          tex_src = ''data:image/jpeg;base64,iVBORw==''\<rparr>"
  by (simp add: load_texture_def snd_bind_run disk_def accept_1x1_def one_pixel_def path_defs)

lemma laat_bound:
  assumes l: "snd (load_texture rf lib filePath) = Inr tex"
    and d: "\<forall>obj \<in> set scene. match_defined lib filePath obj"
    and o: "obj \<in> set scene" and a: "accepts lib filePath obj"
  shows "snd (loadAndApplyTexture rf lib scene w filePath) = None"
    and "mat_map (materials (fst (loadAndApplyTexture rf lib scene w filePath)) (material obj))
           = Some tex"
    and "flags (materials (fst (loadAndApplyTexture rf lib scene w filePath)) (material obj)) =
           (if file_ext lib filePath = ''ozt'' then (True, NormalBlending, False)
            else if file_ext lib filePath = ''ozj'' then (False, NoBlending, True)
            else flags (materials w (material obj)))"
proof -
  from build_meshList_defined [OF d] obtain ml
    where ml: "build_meshList lib (file_base lib filePath) (file_ext lib filePath) scene = Inr ml" by blast
  from complete_accepts [OF ml o a] obtain m
    where m: "m \<in> set ml" "me_mesh m = obj" "me_isMatch m" by blast
  let ?w1 = "emit (fst (load_texture rf lib filePath)) w"
  have oz: "bound_oz tex (file_ext lib filePath)
      (materials (fst (fold (apply_oz tex (file_ext lib filePath)) ml (?w1, False))) (material obj))"
    using fold_apply_oz_bound [OF m(1,3)] m(2) by simp
  have pl: "bound_plain tex (materials w (material obj))
      (materials (fst (fold (apply_plain tex) ml (?w1, False))) (material obj))"
    using fold_apply_plain_bound [OF m(1,3), of tex "(?w1, False)"] m(2) by simp
  have ap: "snd (fold (apply_oz tex (file_ext lib filePath)) ml (?w1, False))"
    "snd (fold (apply_plain tex) ml (?w1, False))"
    using m by (auto simp: fold_apply_oz_applied fold_apply_plain_applied)
  show "snd (loadAndApplyTexture rf lib scene w filePath) = None"
    unfolding laat_applied [OF l ml] Let_def by simp
  show "mat_map (materials (fst (loadAndApplyTexture rf lib scene w filePath)) (material obj))
           = Some tex"
    unfolding laat_applied [OF l ml] Let_def using oz pl ap
    by (simp add: bound_oz_def bound_plain_def)
  show "flags (materials (fst (loadAndApplyTexture rf lib scene w filePath)) (material obj)) =
           (if file_ext lib filePath = ''ozt'' then (True, NormalBlending, False)
            else if file_ext lib filePath = ''ozj'' then (False, NoBlending, True)
            else flags (materials w (material obj)))"
    unfolding laat_applied [OF l ml] Let_def using oz pl ap
    by (auto simp: bound_oz_def bound_plain_def)
qed

lemma laat_none_accepted:
  assumes l: "snd (load_texture rf lib filePath) = Inr tex"
    and d: "\<forall>obj \<in> set scene. match_defined lib filePath obj"
    and n: "\<forall>obj \<in> set scene. \<not> accepts lib filePath obj"
  shows "loadAndApplyTexture rf lib scene w filePath =
           (emit (fst (load_texture rf lib filePath) @ [no_match_warning (path_basename filePath)]) w,
            None)"
proof -
  from build_meshList_defined [OF d] obtain ml
    where ml: "build_meshList lib (file_base lib filePath) (file_ext lib filePath) scene = Inr ml" by blast
  have none: "\<forall>m \<in> set ml. \<not> me_isMatch m"
    using entries_accepts [OF ml] n by blast
  show ?thesis
    unfolding laat_applied [OF l ml] Let_def
    by (simp add: trace_fold_apply_oz_none [OF none] trace_fold_apply_plain_none [OF none]
          emit_def)
qed

lemma wing_scene_facts:
  "material (mesh_at a p) = a" "p \<noteq> [] \<Longrightarrow> wanted (mesh_at a p) = Some p"
  by (simp_all add: mesh_at_def wanted_def)

lemma body_rejects_wing_tga: "\<not> accepts accept_1x1 ''/m/wing.tga'' (mesh_at a ''body.jpg'')"
  by (simp add: accepts_def wanted_def mesh_at_def path_defs ext_defs)

lemma body_defined: "match_defined accept_1x1 ''/m/wing.tga'' (mesh_at a ''body.jpg'')"
  by (simp add: match_defined_def wanted_def mesh_at_def path_defs ext_defs)

lemma wing_jpg_accepts_jpg: "accepts accept_1x1 ''/m/wing.jpg'' (mesh_at a ''wing.jpg'')"
  by (simp add: accepts_def wanted_def mesh_at_def path_defs ext_defs)

lemma wing_jpg_defined: "match_defined accept_1x1 ''/m/wing.jpg'' (mesh_at a ''wing.jpg'')"
  by (simp add: match_defined_def wanted_def mesh_at_def path_defs ext_defs)

lemma laat_some_accepted:
  assumes l: "snd (load_texture rf lib filePath) = Inr tex"
    and d: "\<forall>obj \<in> set scene. match_defined lib filePath obj"
    and o: "obj \<in> set scene" and a: "accepts lib filePath obj"
  shows "\<exists>ds. trace (fst (loadAndApplyTexture rf lib scene w filePath))
           = trace w @ fst (load_texture rf lib filePath) @ ds \<and> list_all is_dispose ds"
proof -
  from build_meshList_defined [OF d] obtain ml
    where ml: "build_meshList lib (file_base lib filePath) (file_ext lib filePath) scene = Inr ml"
    by blast
  from complete_accepts [OF ml o a] obtain m
    where m: "m \<in> set ml" "me_mesh m = obj" "me_isMatch m" by blast
  let ?w1 = "emit (fst (load_texture rf lib filePath)) w"
  have ap: "snd (fold (apply_oz tex (file_ext lib filePath)) ml (?w1, False))"
    "snd (fold (apply_plain tex) ml (?w1, False))"
    using m by (auto simp: fold_apply_oz_applied fold_apply_plain_applied)
  have t1: "trace ?w1 = trace w @ fst (load_texture rf lib filePath)"
    by (simp add: emit_def)
  from fold_apply_oz_trace [of tex "file_ext lib filePath" ml "(?w1, False)"]
       fold_apply_plain_trace [of tex ml "(?w1, False)"]
  show ?thesis
    unfolding laat_applied [OF l ml] Let_def using ap by (auto simp: t1)
qed

subsection \<open>Rendering flags\<close>

text \<open>
  Claim C5, amended. For every successful bind, by either binder, the flags of the
  material follow the extension of the accepted file, not the requested one: for
  \<open>ozt\<close> the material ends with transparent = true, blending = normal and
  depthWrite = false, and for \<open>ozj\<close> with transparent = false, blending = none and
  depthWrite = true. The alpha-bearing family of the code is \<open>ozt\<close> alone: a bind to a
  \<open>tga\<close> file does not make a material transparent that was not. In particular a mesh
  that asks for \<open>wing.tga\<close> and is bound to the candidate \<open>wing.ozt\<close> ends with
  transparent = true and depthWrite = false (the lowering leaves these lower-case names
  as they are).
\<close>

theorem flags_from_accepted_file:
  "(snd (load_texture rf lib filePath) = Inr tex \<and>
    (\<forall>o' \<in> set scene. match_defined lib filePath o') \<and> obj \<in> set scene \<and>
    accepts lib filePath obj \<longrightarrow>
      mat_map (materials (fst (loadAndApplyTexture rf lib scene w filePath)) (material obj))
        = Some tex \<and>
      (file_ext lib filePath = ''ozt'' \<longrightarrow>
         flags (materials (fst (loadAndApplyTexture rf lib scene w filePath)) (material obj))
           = (True, NormalBlending, False)) \<and>
      (file_ext lib filePath = ''ozj'' \<longrightarrow>
         flags (materials (fst (loadAndApplyTexture rf lib scene w filePath)) (material obj))
           = (False, NoBlending, True)) \<and>
      (file_ext lib filePath = ''tga'' \<and> \<not> mat_transparent (materials w (material obj)) \<longrightarrow>
         \<not> mat_transparent
             (materials (fst (loadAndApplyTexture rf lib scene w filePath)) (material obj)))) \<and>
   (obj \<in> set scene \<and> wanted obj = Some p \<and> wanted_base_named lib p = textureName \<longrightarrow>
      mat_map (materials (applyTextureToMeshes lib scene textureName tex w) (material obj))
        = Some tex \<and>
      (toLowerCase lib (path_extname (tex_name tex)) = ''.ozt'' \<longrightarrow>
         flags (materials (applyTextureToMeshes lib scene textureName tex w) (material obj))
           = (True, NormalBlending, False)) \<and>
      (toLowerCase lib (path_extname (tex_name tex)) = ''.ozj'' \<longrightarrow>
         flags (materials (applyTextureToMeshes lib scene textureName tex w) (material obj))
           = (False, NoBlending, True)) \<and>
      (toLowerCase lib (path_extname (tex_name tex)) = ''.tga'' \<and>
       \<not> mat_transparent (materials w (material obj)) \<longrightarrow>
         \<not> mat_transparent
             (materials (applyTextureToMeshes lib scene textureName tex w) (material obj)))) \<and>
   (snd (load_texture rf lib ''/m/wing.ozt'') = Inr tex \<and>
    toLowerCase lib ''wing.tga'' = ''wing.tga'' \<and> toLowerCase lib ''wing.ozt'' = ''wing.ozt'' \<and>
    toLowerCase lib ''.ozt'' = ''.ozt'' \<longrightarrow>
      flags (materials (fst (loadAndApplyTexture rf lib [mesh_at a ''wing.tga''] w ''/m/wing.ozt'')) a)
        = (True, NormalBlending, False))"
proof (intro conjI impI)
  assume h: "snd (load_texture rf lib filePath) = Inr tex \<and>
    (\<forall>o' \<in> set scene. match_defined lib filePath o') \<and> obj \<in> set scene \<and>
    accepts lib filePath obj"
  then have l: "snd (load_texture rf lib filePath) = Inr tex"
    and d: "\<forall>o' \<in> set scene. match_defined lib filePath o'"
    and o: "obj \<in> set scene" and a: "accepts lib filePath obj" by simp_all
  note f = laat_bound(3) [OF l d o a, of w]
  show "mat_map (materials (fst (loadAndApplyTexture rf lib scene w filePath)) (material obj))
        = Some tex"
    by (rule laat_bound(2) [OF l d o a])
  {
    assume "file_ext lib filePath = ''ozt''"
    with f show "flags (materials (fst (loadAndApplyTexture rf lib scene w filePath))
        (material obj)) = (True, NormalBlending, False)" by simp
  }
  {
    assume "file_ext lib filePath = ''ozj''"
    with f show "flags (materials (fst (loadAndApplyTexture rf lib scene w filePath))
        (material obj)) = (False, NoBlending, True)" by simp
  }
  {
    assume "file_ext lib filePath = ''tga'' \<and> \<not> mat_transparent (materials w (material obj))"
    with f show "\<not> mat_transparent
        (materials (fst (loadAndApplyTexture rf lib scene w filePath)) (material obj))"
      by (simp add: flags_def)
  }
next
  assume h: "obj \<in> set scene \<and> wanted obj = Some p \<and> wanted_base_named lib p = textureName"
  then have h1: "obj \<in> set scene" and h2: "wanted obj = Some p"
    and h3: "wanted_base_named lib p = textureName" by simp_all
  have b: "mat_map (materials (fold (apply_named lib textureName tex) scene w) (material obj))
      = Some tex \<and>
    flags (materials (fold (apply_named lib textureName tex) scene w) (material obj))
      = named_flags lib tex"
    by (rule fold_apply_named_bound [OF h1 h2 h3])
  from b show "mat_map (materials (applyTextureToMeshes lib scene textureName tex w)
      (material obj)) = Some tex"
    by (simp add: applyTextureToMeshes_def)
  {
    assume "toLowerCase lib (path_extname (tex_name tex)) = ''.ozt''"
    with b show "flags (materials (applyTextureToMeshes lib scene textureName tex w)
        (material obj)) = (True, NormalBlending, False)"
      by (simp add: applyTextureToMeshes_def named_flags_def)
  }
  {
    assume "toLowerCase lib (path_extname (tex_name tex)) = ''.ozj''"
    with b show "flags (materials (applyTextureToMeshes lib scene textureName tex w)
        (material obj)) = (False, NoBlending, True)"
      by (simp add: applyTextureToMeshes_def named_flags_def)
  }
  {
    assume "toLowerCase lib (path_extname (tex_name tex)) = ''.tga'' \<and>
       \<not> mat_transparent (materials w (material obj))"
    with b show "\<not> mat_transparent
        (materials (applyTextureToMeshes lib scene textureName tex w) (material obj))"
      by (simp add: applyTextureToMeshes_def named_flags_def flags_def)
  }
next
  assume h: "snd (load_texture rf lib ''/m/wing.ozt'') = Inr tex \<and>
    toLowerCase lib ''wing.tga'' = ''wing.tga'' \<and> toLowerCase lib ''wing.ozt'' = ''wing.ozt'' \<and>
    toLowerCase lib ''.ozt'' = ''.ozt''"
  then have l: "snd (load_texture rf lib ''/m/wing.ozt'') = Inr tex"
    and k: "toLowerCase lib ''wing.tga'' = ''wing.tga''" "toLowerCase lib ''wing.ozt'' = ''wing.ozt''"
      "toLowerCase lib ''.ozt'' = ''.ozt''" by simp_all
  have e: "file_ext lib ''/m/wing.ozt'' = ''ozt''"
    by (simp add: file_ext_def path_extname_def path_basename_def last_segment_def is_slash_def
          is_dot_def Let_def k)
  have b: "file_base lib ''/m/wing.ozt'' = ''wing''"
    by (simp add: file_base_def path_basename_def last_segment_def is_slash_def
          is_dot_def strip_ext_def Let_def k)
  have n: "normalizeWanted lib ''wing.tga'' = (''wing'', ''tga'')"
    by (simp add: normalizeWanted_def last_segment_def is_path_sep_def is_dot_def strip_ext_def
          Let_def k)
  have m: "extMatch ''tga'' ''ozt'' = Inr True" by (simp add: ext_defs)
  have a: "accepts lib ''/m/wing.ozt'' (mesh_at a ''wing.tga'')"
    by (simp add: accepts_def wing_scene_facts n b e m)
  have d: "\<forall>o' \<in> set [mesh_at a ''wing.tga'']. match_defined lib ''/m/wing.ozt'' o'"
    by (simp add: match_defined_def wing_scene_facts n e m)
  have o: "mesh_at a ''wing.tga'' \<in> set [mesh_at a ''wing.tga'']" by simp
  from laat_bound(3) [OF l d o a, of w]
  show "flags (materials (fst (loadAndApplyTexture rf lib [mesh_at a ''wing.tga''] w
      ''/m/wing.ozt'')) a) = (True, NormalBlending, False)"
    by (simp add: e wing_scene_facts)
qed

text \<open>
  The amended claim C5 at a mesh that asks for \<open>wing.tga\<close> and the file \<open>wing.tga\<close>:
  the mesh is bound and its material, fresh before, is not transparent after.
\<close>

theorem flags_from_accepted_file_witness:
  "accepts accept_1x1 ''/m/wing.tga'' (mesh_at 0 ''wing.tga'') \<and>
   file_ext accept_1x1 ''/m/wing.tga'' = ''tga'' \<and>
   \<not> mat_transparent (materials fresh_world 0) \<and>
   mat_map (materials (fst (loadAndApplyTexture disk accept_1x1 [mesh_at 0 ''wing.tga'']
              fresh_world ''/m/wing.tga'')) 0) = Some wing_tga_tex \<and>
   \<not> mat_transparent (materials (fst (loadAndApplyTexture disk accept_1x1
              [mesh_at 0 ''wing.tga''] fresh_world ''/m/wing.tga'')) 0)"
proof -
  have l: "snd (load_texture disk accept_1x1 ''/m/wing.tga'') = Inr wing_tga_tex"
    by (simp add: load_wing_tga wing_tga_tex_def)
  have d: "\<forall>o' \<in> set [mesh_at 0 ''wing.tga'']. match_defined accept_1x1 ''/m/wing.tga'' o'"
    by (simp add: wing_defined)
  have o: "mesh_at 0 ''wing.tga'' \<in> set [mesh_at 0 ''wing.tga'']" by simp
  have f: "\<not> mat_transparent (materials fresh_world 0)"
    by (simp add: fresh_world_def fresh_material_def)
  from flags_from_accepted_file [of disk accept_1x1 "''/m/wing.tga''" wing_tga_tex
      "[mesh_at 0 ''wing.tga'']" "mesh_at 0 ''wing.tga''" fresh_world]
    l d o wing_tga_accepts_tga [of 0] f
  show ?thesis by (simp add: wing_scene_facts file_ext_examples)
qed

text \<open>
  Claim C5 as stated fails. The accepted extension \<open>tga\<close> is in the claim's
  alpha-bearing family, the bind succeeds, and the material ends with
  transparent = false and depthWrite = true. The accepted extension \<open>jpg\<close> is not in
  it, the bind succeeds, and the material ends with blending = normal.
\<close>

theorem alpha_family_counterexample:
  "accepts accept_1x1 ''/m/wing.tga'' (mesh_at 0 ''wing.tga'') \<and>
   file_ext accept_1x1 ''/m/wing.tga'' = ''tga'' \<and>
   snd (loadAndApplyTexture disk accept_1x1 [mesh_at 0 ''wing.tga''] fresh_world ''/m/wing.tga'')
     = None \<and>
   mat_map (materials (fst (loadAndApplyTexture disk accept_1x1 [mesh_at 0 ''wing.tga'']
              fresh_world ''/m/wing.tga'')) 0) = Some wing_tga_tex \<and>
   mat_transparent (materials (fst (loadAndApplyTexture disk accept_1x1 [mesh_at 0 ''wing.tga'']
              fresh_world ''/m/wing.tga'')) 0) = False \<and>
   mat_depthWrite (materials (fst (loadAndApplyTexture disk accept_1x1 [mesh_at 0 ''wing.tga'']
              fresh_world ''/m/wing.tga'')) 0) = True \<and>
   accepts accept_1x1 ''/m/wing.jpg'' (mesh_at 0 ''wing.jpg'') \<and>
   file_ext accept_1x1 ''/m/wing.jpg'' = ''jpg'' \<and>
   mat_map (materials (fst (loadAndApplyTexture disk accept_1x1 [mesh_at 0 ''wing.jpg'']
              fresh_world ''/m/wing.jpg'')) 0) = Some wing_jpg_tex \<and>
   mat_blending (materials (fst (loadAndApplyTexture disk accept_1x1 [mesh_at 0 ''wing.jpg'']
              fresh_world ''/m/wing.jpg'')) 0) = NormalBlending"
proof -
  have l: "snd (load_texture disk accept_1x1 ''/m/wing.tga'') = Inr wing_tga_tex"
    by (simp add: load_wing_tga wing_tga_tex_def)
  have d: "\<forall>o' \<in> set [mesh_at 0 ''wing.tga'']. match_defined accept_1x1 ''/m/wing.tga'' o'"
    by (simp add: wing_defined)
  have o: "mesh_at 0 ''wing.tga'' \<in> set [mesh_at 0 ''wing.tga'']" by simp
  have lj: "snd (load_texture disk accept_1x1 ''/m/wing.jpg'') = Inr wing_jpg_tex"
    by (simp add: load_wing_jpg wing_jpg_tex_def)
  have dj: "\<forall>o' \<in> set [mesh_at 0 ''wing.jpg'']. match_defined accept_1x1 ''/m/wing.jpg'' o'"
    by (simp add: wing_jpg_defined)
  have oj: "mesh_at 0 ''wing.jpg'' \<in> set [mesh_at 0 ''wing.jpg'']" by simp
  from laat_bound [OF l d o wing_tga_accepts_tga, of fresh_world]
       laat_bound [OF lj dj oj wing_jpg_accepts_jpg, of fresh_world]
       wing_tga_accepts_tga [of 0] wing_jpg_accepts_jpg [of 0]
  show ?thesis
    by (simp add: wing_scene_facts file_ext_examples flags_def fresh_world_def fresh_material_def)
qed

subsection \<open>Extension equivalence\<close>

lemma values_are_keys:
  "map_of equivExt_table c = Some ys \<Longrightarrow> x \<in> set ys \<Longrightarrow> map_of equivExt_table x \<noteq> None"
  by (auto simp: equivExt_table_def split: if_splits)

lemma includes_equivExt:
  "includes_opt (equivExt k) x =
     (if map_of equivExt_table k = None \<and> k \<in> set object_prototype_names then Inl TypeError
      else Inr (x \<in> set (equivalents k)))"
  by (simp add: equivExt_def equivalents_def split: option.splits)

lemma equivalents_no_row: "map_of equivExt_table k = None \<Longrightarrow> equivalents k = []"
  by (simp add: equivalents_def)

lemma not_in_equivalents:
  assumes "map_of equivExt_table x = None"
  shows "x \<notin> set (equivalents c)"
proof (cases "map_of equivExt_table c")
  case None
  then show ?thesis by (simp add: equivalents_def)
next
  case (Some ys)
  from values_are_keys [OF Some, of x] assms have "x \<notin> set ys" by blast
  with Some show ?thesis by (simp add: equivalents_def)
qed

lemma extMatch_true_iff:
  "extMatch wantedExt fileExt = Inr True \<longleftrightarrow>
     wantedExt = fileExt \<or> fileExt \<in> set (equivalents wantedExt) \<or>
     wantedExt \<in> set (equivalents fileExt)"
proof (cases "wantedExt = fileExt")
  case True
  then show ?thesis by (simp add: extMatch_def)
next
  case ne: False
  show ?thesis
  proof (cases "map_of equivExt_table wantedExt = None \<and> wantedExt \<in> set object_prototype_names")
    case True
    then have "extMatch wantedExt fileExt = Inl TypeError"
      using ne by (simp add: extMatch_def includes_equivExt)
    moreover from True have "fileExt \<notin> set (equivalents wantedExt)"
      by (simp add: equivalents_no_row)
    moreover from True have "wantedExt \<notin> set (equivalents fileExt)"
      by (simp add: not_in_equivalents)
    ultimately show ?thesis using ne by simp
  next
    case w: False
    show ?thesis
    proof (cases "fileExt \<in> set (equivalents wantedExt)")
      case True
      with w ne show ?thesis by (simp add: extMatch_def includes_equivExt)
    next
      case nf: False
      show ?thesis
      proof (cases "map_of equivExt_table fileExt = None \<and> fileExt \<in> set object_prototype_names")
        case True
        then have "extMatch wantedExt fileExt = Inl TypeError"
          using ne w nf by (simp add: extMatch_def includes_equivExt)
        moreover from True have "wantedExt \<notin> set (equivalents fileExt)"
          by (simp add: equivalents_no_row)
        ultimately show ?thesis using ne nf by simp
      next
        case False
        with ne w nf show ?thesis by (auto simp: extMatch_def includes_equivExt)
      qed
    qed
  qed
qed

lemma extMatch_total:
  assumes "wantedExt \<notin> set object_prototype_names" "fileExt \<notin> set object_prototype_names"
  shows "extMatch wantedExt fileExt =
           Inr (wantedExt = fileExt \<or> fileExt \<in> set (equivalents wantedExt) \<or>
                wantedExt \<in> set (equivalents fileExt))"
  using assms by (simp add: extMatch_def includes_equivExt split: bool.splits)

text \<open>
  Claim C6. For all extension strings, the extension test returns true if and only if
  the two are equal, or the candidate is among the equivalents of the wanted one, or the
  wanted one is among the equivalents of the candidate; it returns the truth value of
  that condition whenever neither string is the name of a property inherited from
  \<open>Object.prototype\<close>. The equivalents are exactly the six rows of the table, and empty
  for every other extension. So the test holds of every extension with itself, holds of
  \<open>png\<close> and \<open>ozj\<close>, and fails for \<open>jpg\<close> and \<open>tga\<close>.
\<close>

theorem extension_matching:
  "(extMatch wantedExt fileExt = Inr True \<longleftrightarrow>
      wantedExt = fileExt \<or> fileExt \<in> set (equivalents wantedExt) \<or>
      wantedExt \<in> set (equivalents fileExt)) \<and>
   (wantedExt \<notin> set object_prototype_names \<and> fileExt \<notin> set object_prototype_names \<longrightarrow>
      extMatch wantedExt fileExt =
        Inr (wantedExt = fileExt \<or> fileExt \<in> set (equivalents wantedExt) \<or>
             wantedExt \<in> set (equivalents fileExt))) \<and>
   map (\<lambda>k. (k, equivalents k)) [''jpg'', ''jpeg'', ''ozj'', ''png'', ''tga'', ''ozt''] =
     [(''jpg'', [''ozj'', ''jpeg'']), (''jpeg'', [''ozj'', ''jpg'']),
      (''ozj'', [''jpg'', ''jpeg'', ''png'']), (''png'', [''ozj'', ''ozt'']),
      (''tga'', [''ozt'', ''png'']), (''ozt'', [''tga'', ''png''])] \<and>
   (k \<notin> set [''jpg'', ''jpeg'', ''ozj'', ''png'', ''tga'', ''ozt''] \<longrightarrow> equivalents k = []) \<and>
   extMatch ext ext = Inr True \<and>
   extMatch ''png'' ''ozj'' = Inr True \<and>
   extMatch ''jpg'' ''tga'' = Inr False"
proof (intro conjI impI)
  show "extMatch wantedExt fileExt = Inr True \<longleftrightarrow>
      wantedExt = fileExt \<or> fileExt \<in> set (equivalents wantedExt) \<or>
      wantedExt \<in> set (equivalents fileExt)"
    by (rule extMatch_true_iff)
next
  assume "wantedExt \<notin> set object_prototype_names \<and> fileExt \<notin> set object_prototype_names"
  then show "extMatch wantedExt fileExt =
        Inr (wantedExt = fileExt \<or> fileExt \<in> set (equivalents wantedExt) \<or>
             wantedExt \<in> set (equivalents fileExt))"
    by (intro extMatch_total) simp_all
next
  show "map (\<lambda>k. (k, equivalents k)) [''jpg'', ''jpeg'', ''ozj'', ''png'', ''tga'', ''ozt''] =
     [(''jpg'', [''ozj'', ''jpeg'']), (''jpeg'', [''ozj'', ''jpg'']),
      (''ozj'', [''jpg'', ''jpeg'', ''png'']), (''png'', [''ozj'', ''ozt'']),
      (''tga'', [''ozt'', ''png'']), (''ozt'', [''tga'', ''png''])]"
    by (simp add: equivalents_def equivExt_table_def)
next
  assume "k \<notin> set [''jpg'', ''jpeg'', ''ozj'', ''png'', ''tga'', ''ozt'']"
  then show "equivalents k = []"
    by (simp add: equivalents_def equivExt_table_def)
next
  show "extMatch ext ext = Inr True" by (simp add: extMatch_def)
  show "extMatch ''png'' ''ozj'' = Inr True" by (simp add: ext_defs)
  show "extMatch ''jpg'' ''tga'' = Inr False" by (simp add: ext_defs)
qed

text \<open>Claim C6 at \<open>tga\<close> and \<open>ozt\<close>, and at an extension without a row.\<close>

theorem extension_matching_witness:
  "''tga'' \<notin> set object_prototype_names \<and> ''ozt'' \<notin> set object_prototype_names \<and>
   ''bmp'' \<notin> set [''jpg'', ''jpeg'', ''ozj'', ''png'', ''tga'', ''ozt''] \<and>
   extMatch ''tga'' ''ozt'' = Inr True \<and> equivalents ''bmp'' = []"
proof -
  have a: "''tga'' \<notin> set object_prototype_names" "''ozt'' \<notin> set object_prototype_names"
    by (simp_all add: object_prototype_names_def)
  have b: "''bmp'' \<notin> set [''jpg'', ''jpeg'', ''ozj'', ''png'', ''tga'', ''ozt'']" by simp
  have c: "''ozt'' \<in> set (equivalents ''tga'')"
    by (simp add: equivalents_def equivExt_table_def)
  from extension_matching [of "''tga''" "''ozt''" "''bmp''"] a b c show ?thesis by simp
qed

subsection \<open>The job over the candidates\<close>

lemma convert_first_only:
  "convertBmdToGlb rf lib scene (first_only found) w = convertBmdToGlb rf lib scene found w"
proof (induction found arbitrary: w)
  case Nil
  then show ?case by (simp add: first_only_def)
next
  case (Cons entry found)
  obtain n ps where e: "entry = (n, ps)" by (cases entry)
  have f: "first_only ((n, ps) # found) = (n, take 1 ps) # first_only found"
    by (simp add: first_only_def)
  show ?case
    unfolding e f using Cons.IH
    by (cases ps) (auto split: prod.splits option.splits)
qed

lemma convert_step:
  "loadAndApplyTexture rf lib scene w f = (w', r) \<Longrightarrow>
   convertBmdToGlb rf lib scene ((n, f # others) # rest) w =
     (case r of Some e \<Rightarrow> (w', Some e) | None \<Rightarrow> convertBmdToGlb rf lib scene rest w')"
  by (simp split: option.splits)

lemma convert_frame:
  "\<forall>entry \<in> set found. first_out_of_reach lib scene a entry \<Longrightarrow>
   materials (fst (convertBmdToGlb rf lib scene found w)) a = materials w a"
proof (induction found arbitrary: w)
  case Nil
  then show ?case by simp
next
  case (Cons entry found)
  obtain n ps where e: "entry = (n, ps)" by (cases entry)
  show ?case
  proof (cases ps)
    case Nil
    then show ?thesis by (simp add: e)
  next
    case (Cons f others)
    with Cons.prems e have r: "out_of_reach lib scene f a" by (simp add: first_out_of_reach_def)
    obtain w' r' where l: "loadAndApplyTexture rf lib scene w f = (w', r')"
      by (cases "loadAndApplyTexture rf lib scene w f")
    have fr: "materials w' a = materials w a"
      using laat_frame [OF r, of rf w] l by simp
    show ?thesis
    proof (cases r')
      case None
      have "materials (fst (convertBmdToGlb rf lib scene found w')) a = materials w' a"
        using Cons.prems by (intro Cons.IH) simp
      with fr None l show ?thesis by (simp add: e \<open>ps = f # others\<close>)
    next
      case (Some err)
      with fr l show ?thesis by (simp add: e \<open>ps = f # others\<close>)
    qed
  qed
qed

text \<open>
  Claim C4, amended. Of every entry of the candidate set the binder tries the first file
  only: the job on the candidates is the job on their first files, and without
  candidates it does nothing and emits nothing. When the tried file is decoded and the
  extension test returns for every mesh, the call returns normally; every mesh that
  passes both checks for the file (equal base names, matching extensions) is bound to
  its texture; when no mesh passes them the world only gains the events of the decoding
  and the warning for the file; and when some mesh passes them it gains the events of the
  decoding and disposals only, so no warning. A mesh keeps its material through the
  whole job when, for the first file of every entry, neither the mesh nor a mesh that
  shares its material passes both checks, whether or not a later file of an entry would
  pass them.
\<close>

theorem first_candidate_only:
  "convertBmdToGlb rf lib scene found w = convertBmdToGlb rf lib scene (first_only found) w \<and>
   convertBmdToGlb rf lib scene [] w = (w, None) \<and>
   (snd (load_texture rf lib filePath) = Inr tex \<and>
    (\<forall>o' \<in> set scene. match_defined lib filePath o') \<longrightarrow>
      snd (loadAndApplyTexture rf lib scene w filePath) = None \<and>
      (\<forall>o' \<in> set scene. accepts lib filePath o' \<longrightarrow>
         mat_map (materials (fst (loadAndApplyTexture rf lib scene w filePath)) (material o'))
           = Some tex) \<and>
      ((\<forall>o' \<in> set scene. \<not> accepts lib filePath o') \<longrightarrow>
         fst (loadAndApplyTexture rf lib scene w filePath) =
           emit (fst (load_texture rf lib filePath) @ [no_match_warning (path_basename filePath)]) w) \<and>
      ((\<exists>o' \<in> set scene. accepts lib filePath o') \<longrightarrow>
         (\<exists>ds. trace (fst (loadAndApplyTexture rf lib scene w filePath))
                 = trace w @ fst (load_texture rf lib filePath) @ ds \<and>
               list_all is_dispose ds))) \<and>
   ((\<forall>entry \<in> set found. first_out_of_reach lib scene (material obj) entry) \<longrightarrow>
      materials (fst (convertBmdToGlb rf lib scene found w)) (material obj)
        = materials w (material obj))"
proof (intro conjI impI ballI)
  show "convertBmdToGlb rf lib scene found w = convertBmdToGlb rf lib scene (first_only found) w"
    by (simp add: convert_first_only)
  show "convertBmdToGlb rf lib scene [] w = (w, None)" by simp
next
  assume h: "snd (load_texture rf lib filePath) = Inr tex \<and>
    (\<forall>o' \<in> set scene. match_defined lib filePath o')"
  then have l: "snd (load_texture rf lib filePath) = Inr tex"
    and d: "\<forall>o' \<in> set scene. match_defined lib filePath o'" by simp_all
  from build_meshList_defined [OF d] obtain ml
    where ml: "build_meshList lib (file_base lib filePath) (file_ext lib filePath) scene = Inr ml"
    by blast
  show "snd (loadAndApplyTexture rf lib scene w filePath) = None"
    unfolding laat_applied [OF l ml] Let_def by simp
  {
    fix o' assume "o' \<in> set scene" "accepts lib filePath o'"
    with l d show "mat_map (materials (fst (loadAndApplyTexture rf lib scene w filePath))
        (material o')) = Some tex"
      by (intro laat_bound(2))
  }
  {
    assume "\<forall>o' \<in> set scene. \<not> accepts lib filePath o'"
    with l d show "fst (loadAndApplyTexture rf lib scene w filePath) =
           emit (fst (load_texture rf lib filePath) @ [no_match_warning (path_basename filePath)]) w"
      by (simp add: laat_none_accepted)
  }
  {
    assume "\<exists>o' \<in> set scene. accepts lib filePath o'"
    then obtain o' where "o' \<in> set scene" "accepts lib filePath o'" by blast
    with l d show "\<exists>ds. trace (fst (loadAndApplyTexture rf lib scene w filePath))
                 = trace w @ fst (load_texture rf lib filePath) @ ds \<and>
               list_all is_dispose ds"
      by (intro laat_some_accepted)
  }
next
  assume "\<forall>entry \<in> set found. first_out_of_reach lib scene (material obj) entry"
  then show "materials (fst (convertBmdToGlb rf lib scene found w)) (material obj)
        = materials w (material obj)"
    by (rule convert_frame)
qed

text \<open>
  The amended claim C4 at a mesh that asks for \<open>wing.tga\<close>: the file \<open>wing.tga\<close>
  binds it and adds no warning, the file \<open>wing.jpg\<close> only adds its warning, and the
  candidates \<open>wing.jpg\<close>, \<open>wing.ozt\<close> leave its material fresh.
\<close>

theorem first_candidate_only_witness:
  "snd (loadAndApplyTexture disk accept_1x1 [mesh_at 0 ''wing.tga''] fresh_world ''/m/wing.tga'')
     = None \<and>
   mat_map (materials (fst (loadAndApplyTexture disk accept_1x1 [mesh_at 0 ''wing.tga'']
              fresh_world ''/m/wing.tga'')) 0) = Some wing_tga_tex \<and>
   (\<exists>ds. trace (fst (loadAndApplyTexture disk accept_1x1 [mesh_at 0 ''wing.tga'']
                 fresh_world ''/m/wing.tga''))
           = fst (load_texture disk accept_1x1 ''/m/wing.tga'') @ ds \<and> list_all is_dispose ds) \<and>
   fst (loadAndApplyTexture disk accept_1x1 [mesh_at 0 ''wing.tga''] fresh_world ''/m/wing.jpg'') =
     emit (fst (load_texture disk accept_1x1 ''/m/wing.jpg'') @ [no_match_warning ''wing.jpg''])
       fresh_world \<and>
   materials (fst (convertBmdToGlb disk accept_1x1 [mesh_at 0 ''wing.tga''] wing_candidates
                fresh_world)) 0 = fresh_material"
proof -
  let ?scene = "[mesh_at 0 ''wing.tga'']"
  have lt: "snd (load_texture disk accept_1x1 ''/m/wing.tga'') = Inr wing_tga_tex"
    by (simp add: load_wing_tga wing_tga_tex_def)
  have lj: "snd (load_texture disk accept_1x1 ''/m/wing.jpg'') = Inr wing_jpg_tex"
    by (simp add: load_wing_jpg wing_jpg_tex_def)
  have dt: "\<forall>o' \<in> set ?scene. match_defined accept_1x1 ''/m/wing.tga'' o'"
    and dj: "\<forall>o' \<in> set ?scene. match_defined accept_1x1 ''/m/wing.jpg'' o'"
    by (simp_all add: wing_defined)
  have at: "\<forall>o' \<in> set ?scene. accepts accept_1x1 ''/m/wing.tga'' o'"
    by (simp add: wing_tga_accepts_tga)
  have nj: "\<forall>o' \<in> set ?scene. \<not> accepts accept_1x1 ''/m/wing.jpg'' o'"
    by (simp add: wing_tga_rejects_jpg)
  have fr: "\<forall>entry \<in> set wing_candidates.
      first_out_of_reach accept_1x1 ?scene (material (mesh_at 0 ''wing.tga'')) entry"
    by (simp add: wing_candidates_def first_out_of_reach_def out_of_reach_def
          wing_tga_rejects_jpg)
  have bn: "path_basename ''/m/wing.jpg'' = ''wing.jpg''" by (simp add: path_defs)
  have tr: "trace fresh_world = []" by (simp add: fresh_world_def)
  from first_candidate_only [of disk accept_1x1 ?scene wing_candidates fresh_world
      "''/m/wing.tga''" wing_tga_tex "mesh_at 0 ''wing.tga''"]
    lt dt at
  have a: "snd (loadAndApplyTexture disk accept_1x1 ?scene fresh_world ''/m/wing.tga'') = None"
    "mat_map (materials (fst (loadAndApplyTexture disk accept_1x1 ?scene fresh_world
        ''/m/wing.tga'')) 0) = Some wing_tga_tex"
    "\<exists>ds. trace (fst (loadAndApplyTexture disk accept_1x1 ?scene fresh_world ''/m/wing.tga''))
           = fst (load_texture disk accept_1x1 ''/m/wing.tga'') @ ds \<and> list_all is_dispose ds"
    by (simp_all add: wing_scene_facts tr)
  have fm: "materials fresh_world 0 = fresh_material" by (simp add: fresh_world_def)
  from first_candidate_only [of disk accept_1x1 ?scene wing_candidates fresh_world
      "''/m/wing.jpg''" wing_jpg_tex "mesh_at 0 ''wing.tga''", THEN conjunct2]
    lj dj nj fr
  have b: "fst (loadAndApplyTexture disk accept_1x1 ?scene fresh_world ''/m/wing.jpg'') =
     emit (fst (load_texture disk accept_1x1 ''/m/wing.jpg'') @ [no_match_warning ''wing.jpg''])
       fresh_world"
    "materials (fst (convertBmdToGlb disk accept_1x1 ?scene wing_candidates fresh_world)) 0
       = fresh_material"
    by (simp_all add: wing_scene_facts bn fm)
  from a b show ?thesis by blast
qed

text \<open>
  Claim C4 as stated fails in three ways. The second candidate \<open>wing.ozt\<close> passes both
  checks for a mesh that asks for \<open>wing.tga\<close>, the job returns normally, and the mesh
  is not bound. Without any entry the mesh is left unbound and the job emits nothing, so
  no diagnostic. And a mesh that asks for \<open>body.jpg\<close>, for which no candidate passes the
  checks, ends up bound when it shares its material with the mesh that asks for
  \<open>wing.tga\<close>.
\<close>

theorem later_candidate_counterexample:
  "accepts accept_1x1 ''/m/wing.ozt'' (mesh_at 0 ''wing.tga'') \<and>
   snd (convertBmdToGlb disk accept_1x1 [mesh_at 0 ''wing.tga''] wing_candidates fresh_world)
     = None \<and>
   mat_map (materials (fst (convertBmdToGlb disk accept_1x1 [mesh_at 0 ''wing.tga'']
              wing_candidates fresh_world)) 0) = None \<and>
   mat_map (materials (fst (convertBmdToGlb disk accept_1x1 [mesh_at 0 ''wing.tga''] []
              fresh_world)) 0) = None \<and>
   trace (fst (convertBmdToGlb disk accept_1x1 [mesh_at 0 ''wing.tga''] [] fresh_world)) = [] \<and>
   \<not> accepts accept_1x1 ''/m/wing.tga'' (mesh_at 0 ''body.jpg'') \<and>
   mat_map (materials (fst (convertBmdToGlb disk accept_1x1 shared_meshes wing_tga_candidate
              fresh_world)) (material (mesh_at 0 ''body.jpg''))) = Some wing_tga_tex"
proof -
  let ?scene = "[mesh_at 0 ''wing.tga'']"
  have lj: "snd (load_texture disk accept_1x1 ''/m/wing.jpg'') = Inr wing_jpg_tex"
    by (simp add: load_wing_jpg wing_jpg_tex_def)
  have dj: "\<forall>o' \<in> set ?scene. match_defined accept_1x1 ''/m/wing.jpg'' o'"
    by (simp add: wing_defined)
  have nj: "\<forall>o' \<in> set ?scene. \<not> accepts accept_1x1 ''/m/wing.jpg'' o'"
    by (simp add: wing_tga_rejects_jpg)
  have a: "snd (convertBmdToGlb disk accept_1x1 ?scene wing_candidates fresh_world) = None"
    "mat_map (materials (fst (convertBmdToGlb disk accept_1x1 ?scene wing_candidates
        fresh_world)) 0) = None"
    using laat_none_accepted [OF lj dj nj, of fresh_world]
    by (simp_all add: wing_candidates_def fresh_world_def fresh_material_def emit_def)
  have b: "mat_map (materials (fst (convertBmdToGlb disk accept_1x1 ?scene [] fresh_world)) 0)
      = None"
    "trace (fst (convertBmdToGlb disk accept_1x1 ?scene [] fresh_world)) = []"
    by (simp_all add: fresh_world_def fresh_material_def)
  have lt: "snd (load_texture disk accept_1x1 ''/m/wing.tga'') = Inr wing_tga_tex"
    by (simp add: load_wing_tga wing_tga_tex_def)
  have dt: "\<forall>o' \<in> set shared_meshes. match_defined accept_1x1 ''/m/wing.tga'' o'"
    by (simp add: shared_meshes_def wing_defined body_defined)
  have o: "mesh_at 0 ''wing.tga'' \<in> set shared_meshes" by (simp add: shared_meshes_def)
  obtain w1 where w1: "loadAndApplyTexture disk accept_1x1 shared_meshes fresh_world
      ''/m/wing.tga'' = (w1, None)"
    using laat_bound(1) [OF lt dt o wing_tga_accepts_tga, of fresh_world]
    by (cases "loadAndApplyTexture disk accept_1x1 shared_meshes fresh_world ''/m/wing.tga''")
       simp
  have m1: "mat_map (materials w1 0) = Some wing_tga_tex"
    using laat_bound(2) [OF lt dt o wing_tga_accepts_tga, of fresh_world] w1
    by (simp add: wing_scene_facts)
  have c: "mat_map (materials (fst (convertBmdToGlb disk accept_1x1 shared_meshes
      wing_tga_candidate fresh_world)) (material (mesh_at 0 ''body.jpg''))) = Some wing_tga_tex"
    unfolding wing_tga_candidate_def using w1 m1 by (simp add: wing_scene_facts)
  from a b c wing_tga_accepts_ozt [of 0] body_rejects_wing_tga [of 0] show ?thesis by blast
qed

subsection \<open>A file that cannot be decoded\<close>

lemma load_bad_ozt:
  "snd (load_texture disk accept_1x1 ''/m/bad.ozt'') = Inl (Error ''File too small for OZT'')"
  by (simp add: load_texture_def snd_bind_run disk_def convert_small path_defs)

lemma load_plain_bad_ozt:
  "snd (load_texture_plain disk accept_1x1 ''/m/bad.ozt'') = Inl (Error ''File too small for OZT'')"
  by (simp add: load_texture_plain_def snd_bind_run disk_def convert_small path_defs)

lemma load_plain_wing_jpg:
  "snd (load_texture_plain disk accept_1x1 ''/m/wing.jpg'') = Inr wing_jpg_plain"
  by (simp add: load_texture_plain_def snd_bind_run disk_def accept_1x1_def one_pixel_def
        wing_jpg_plain_def path_defs)

lemma wing_jpg_base: "wanted_base_named accept_1x1 ''wing.jpg'' = ''wing''"
  by (simp add: path_defs)

text \<open>
  Claim C8 at two texture names, of which the first has a file of three bytes. Alone, the
  second name is decoded and bound. With the first name before it, \<open>convertBmdToGlb\<close>
  ends with the decode error of the first file and the mesh of the second name is not
  bound, whereas \<open>loadAndApplyTextures\<close>, which catches the error of each name, returns
  normally with that mesh bound.
\<close>

theorem decode_failure_aborts_job:
  "snd (convertBmdToGlb disk accept_1x1 [mesh_at 0 ''wing.jpg''] [(''wing'', [''/m/wing.jpg''])]
          fresh_world) = None \<and>
   mat_map (materials (fst (convertBmdToGlb disk accept_1x1 [mesh_at 0 ''wing.jpg'']
              [(''wing'', [''/m/wing.jpg''])] fresh_world)) 0) = Some wing_jpg_tex \<and>
   snd (convertBmdToGlb disk accept_1x1 [mesh_at 0 ''wing.jpg''] bad_then_wing fresh_world)
     = Some (Error ''File too small for OZT'') \<and>
   mat_map (materials (fst (convertBmdToGlb disk accept_1x1 [mesh_at 0 ''wing.jpg'']
              bad_then_wing fresh_world)) 0) = None \<and>
   snd (loadAndApplyTextures disk accept_1x1 [mesh_at 0 ''wing.jpg''] bad_then_wing fresh_world)
     = None \<and>
   mat_map (materials (fst (loadAndApplyTextures disk accept_1x1 [mesh_at 0 ''wing.jpg'']
              bad_then_wing fresh_world)) 0) = Some wing_jpg_plain"
proof -
  let ?scene = "[mesh_at 0 ''wing.jpg'']"
  have lj: "snd (load_texture disk accept_1x1 ''/m/wing.jpg'') = Inr wing_jpg_tex"
    by (simp add: load_wing_jpg wing_jpg_tex_def)
  have dj: "\<forall>o' \<in> set ?scene. match_defined accept_1x1 ''/m/wing.jpg'' o'"
    by (simp add: wing_jpg_defined)
  have o: "mesh_at 0 ''wing.jpg'' \<in> set ?scene" by simp
  have alone: "snd (loadAndApplyTexture disk accept_1x1 ?scene fresh_world ''/m/wing.jpg'') = None"
    "mat_map (materials (fst (loadAndApplyTexture disk accept_1x1 ?scene fresh_world
        ''/m/wing.jpg'')) 0) = Some wing_jpg_tex"
    using laat_bound(1,2) [OF lj dj o wing_jpg_accepts_jpg, of fresh_world]
    by (simp_all add: wing_scene_facts)
  have bad: "loadAndApplyTexture disk accept_1x1 ?scene fresh_world ''/m/bad.ozt'' =
      (emit (fst (load_texture disk accept_1x1 ''/m/bad.ozt'')) fresh_world,
       Some (Error ''File too small for OZT''))"
    by (rule laat_load_failed [OF load_bad_ozt])
  have named: "mat_map (materials (applyTextureToMeshes accept_1x1 ?scene ''wing'' wing_jpg_plain w) 0)
      = Some wing_jpg_plain" for w
    using fold_apply_named_bound [of "mesh_at 0 ''wing.jpg''" ?scene "''wing.jpg''" accept_1x1
        "''wing''" wing_jpg_plain w]
    by (simp add: applyTextureToMeshes_def wing_scene_facts wing_jpg_base)
  obtain w1 where w1: "loadAndApplyTexture disk accept_1x1 ?scene fresh_world ''/m/wing.jpg''
      = (w1, None)"
    using alone(1) by (cases "loadAndApplyTexture disk accept_1x1 ?scene fresh_world ''/m/wing.jpg''") simp
  have c1: "convertBmdToGlb disk accept_1x1 ?scene [(''wing'', [''/m/wing.jpg''])] fresh_world
      = (w1, None)"
    using w1 by simp
  have m1: "mat_map (materials w1 0) = Some wing_jpg_tex"
    using alone(2) w1 by simp
  have c2: "convertBmdToGlb disk accept_1x1 ?scene bad_then_wing fresh_world =
      (emit (fst (load_texture disk accept_1x1 ''/m/bad.ozt'')) fresh_world,
       Some (Error ''File too small for OZT''))"
    unfolding bad_then_wing_def using bad by simp
  have m2: "mat_map (materials fresh_world 0) = None"
    by (simp add: fresh_world_def fresh_material_def)
  have c3: "loadAndApplyTextures disk accept_1x1 ?scene bad_then_wing fresh_world =
      (applyTextureToMeshes accept_1x1 ?scene ''wing'' wing_jpg_plain
         (emit (fst (load_texture_plain disk accept_1x1 ''/m/wing.jpg''))
            (emit [ConsoleError (''Failed to load texture '' @ ''/m/bad.ozt'' @ '': '' @
                     error_to_string (Error ''File too small for OZT''))]
               (emit (fst (load_texture_plain disk accept_1x1 ''/m/bad.ozt'')) fresh_world))),
       None)"
    unfolding bad_then_wing_def
    by (simp add: load_plain_bad_ozt load_plain_wing_jpg Let_def del: error_to_string.simps)
  show ?thesis
    unfolding c1 c2 c3 by (simp add: m1 m2 named)
qed

subsection \<open>The frame of a bind\<close>

text \<open>
  Claim C9, amended. A bind of a texture file with normalized base name \<open>fileBase\<close>
  leaves the whole material of a mesh as it was, whatever the outcome of the bind, when
  the normalized \<open>texturePath\<close> base name of the mesh differs from \<open>fileBase\<close> and its
  material is not also the material of a mesh that passes both checks for the file. The
  same holds for \<open>applyTextureToMeshes\<close>, the base name it computes and the meshes it
  matches.
\<close>

theorem other_base_unchanged:
  "(obj \<in> set scene \<and> wanted obj = Some p \<and>
    fst (normalizeWanted lib p) \<noteq> file_base lib filePath \<and>
    out_of_reach lib scene filePath (material obj) \<longrightarrow>
      materials (fst (loadAndApplyTexture rf lib scene w filePath)) (material obj)
        = materials w (material obj)) \<and>
   (obj \<in> set scene \<and> wanted obj = Some p \<and> wanted_base_named lib p \<noteq> textureName \<and>
    out_of_reach_named lib scene textureName (material obj) \<longrightarrow>
      materials (applyTextureToMeshes lib scene textureName tex w) (material obj)
        = materials w (material obj))"
proof (intro conjI impI)
  assume "obj \<in> set scene \<and> wanted obj = Some p \<and>
    fst (normalizeWanted lib p) \<noteq> file_base lib filePath \<and>
    out_of_reach lib scene filePath (material obj)"
  then have "out_of_reach lib scene filePath (material obj)" by simp
  then show "materials (fst (loadAndApplyTexture rf lib scene w filePath)) (material obj)
        = materials w (material obj)"
    by (rule laat_frame)
next
  assume "obj \<in> set scene \<and> wanted obj = Some p \<and> wanted_base_named lib p \<noteq> textureName \<and>
    out_of_reach_named lib scene textureName (material obj)"
  then have "\<forall>obj' \<in> set scene.
      \<not> (named_match lib textureName obj' \<and> material obj' = material obj)"
    by (simp add: out_of_reach_named_def list_all_iff)
  then show "materials (applyTextureToMeshes lib scene textureName tex w) (material obj)
        = materials w (material obj)"
    unfolding applyTextureToMeshes_def by (rule fold_apply_named_other)
qed

text \<open>
  The amended claim C9 at a scene of two meshes with a material each: binding the file
  \<open>wing.tga\<close> binds the first and leaves the material of the mesh that asks for
  \<open>body.jpg\<close> as it was.
\<close>

theorem other_base_unchanged_witness:
  "fst (normalizeWanted accept_1x1 ''body.jpg'') = ''body'' \<and>
   file_base accept_1x1 ''/m/wing.tga'' = ''wing'' \<and>
   out_of_reach accept_1x1 two_meshes ''/m/wing.tga'' 1 \<and>
   out_of_reach_named accept_1x1 two_meshes ''wing'' 1 \<and>
   mat_map (materials (fst (loadAndApplyTexture disk accept_1x1 two_meshes fresh_world
              ''/m/wing.tga'')) 0) = Some wing_tga_tex \<and>
   materials (fst (loadAndApplyTexture disk accept_1x1 two_meshes fresh_world ''/m/wing.tga'')) 1
     = fresh_material \<and>
   materials (applyTextureToMeshes accept_1x1 two_meshes ''wing'' wing_jpg_plain fresh_world) 1
     = fresh_material"
proof -
  have o: "mesh_at 1 ''body.jpg'' \<in> set two_meshes" by (simp add: two_meshes_def)
  have w: "wanted (mesh_at 1 ''body.jpg'') = Some ''body.jpg''"
    by (simp add: wing_scene_facts)
  have b: "fst (normalizeWanted accept_1x1 ''body.jpg'') = ''body''"
    "file_base accept_1x1 ''/m/wing.tga'' = ''wing''"
    "wanted_base_named accept_1x1 ''body.jpg'' = ''body''"
    by (simp_all add: path_defs)
  have r: "out_of_reach accept_1x1 two_meshes ''/m/wing.tga'' 1"
    by (simp add: out_of_reach_def two_meshes_def wing_scene_facts body_rejects_wing_tga)
  have rn: "out_of_reach_named accept_1x1 two_meshes ''wing'' 1"
    by (simp add: out_of_reach_named_def two_meshes_def named_match_def wing_scene_facts b)
  have l: "snd (load_texture disk accept_1x1 ''/m/wing.tga'') = Inr wing_tga_tex"
    by (simp add: load_wing_tga wing_tga_tex_def)
  have d: "\<forall>o' \<in> set two_meshes. match_defined accept_1x1 ''/m/wing.tga'' o'"
    by (simp add: two_meshes_def wing_defined body_defined)
  have o0: "mesh_at 0 ''wing.tga'' \<in> set two_meshes" by (simp add: two_meshes_def)
  have bound: "mat_map (materials (fst (loadAndApplyTexture disk accept_1x1 two_meshes
      fresh_world ''/m/wing.tga'')) 0) = Some wing_tga_tex"
    using laat_bound(2) [OF l d o0 wing_tga_accepts_tga, of fresh_world]
    by (simp add: wing_scene_facts)
  from other_base_unchanged [of "mesh_at 1 ''body.jpg''" two_meshes "''body.jpg''" accept_1x1
      "''/m/wing.tga''" disk fresh_world "''wing''" wing_jpg_plain] o w b r rn bound
  show ?thesis by (simp add: wing_scene_facts fresh_world_def)
qed

text \<open>
  Claim C9 as stated fails: in a scene where the mesh that asks for \<open>body.jpg\<close> shares
  its material with the mesh that asks for \<open>wing.tga\<close>, the base name \<open>body\<close> differs
  from that of the file \<open>wing.tga\<close>, and the bind of the file, by either binder, gives
  the material of that mesh, fresh before, the map of the file.
\<close>

theorem shared_material_counterexample:
  "wanted (mesh_at 0 ''body.jpg'') = Some ''body.jpg'' \<and>
   fst (normalizeWanted accept_1x1 ''body.jpg'') = ''body'' \<and>
   file_base accept_1x1 ''/m/wing.tga'' = ''wing'' \<and>
   wanted_base_named accept_1x1 ''body.jpg'' = ''body'' \<and>
   mat_map (materials fresh_world (material (mesh_at 0 ''body.jpg''))) = None \<and>
   mat_map (materials (fst (loadAndApplyTexture disk accept_1x1 shared_meshes fresh_world
              ''/m/wing.tga'')) (material (mesh_at 0 ''body.jpg''))) = Some wing_tga_tex \<and>
   mat_map (materials (applyTextureToMeshes accept_1x1 shared_meshes ''wing'' wing_jpg_plain
              fresh_world) (material (mesh_at 0 ''body.jpg''))) = Some wing_jpg_plain"
proof -
  have b: "fst (normalizeWanted accept_1x1 ''body.jpg'') = ''body''"
    "file_base accept_1x1 ''/m/wing.tga'' = ''wing''"
    "wanted_base_named accept_1x1 ''body.jpg'' = ''body''"
    "wanted_base_named accept_1x1 ''wing.tga'' = ''wing''"
    by (simp_all add: path_defs)
  have l: "snd (load_texture disk accept_1x1 ''/m/wing.tga'') = Inr wing_tga_tex"
    by (simp add: load_wing_tga wing_tga_tex_def)
  have d: "\<forall>o' \<in> set shared_meshes. match_defined accept_1x1 ''/m/wing.tga'' o'"
    by (simp add: shared_meshes_def wing_defined body_defined)
  have o: "mesh_at 0 ''wing.tga'' \<in> set shared_meshes" by (simp add: shared_meshes_def)
  have first: "mat_map (materials (fst (loadAndApplyTexture disk accept_1x1 shared_meshes
      fresh_world ''/m/wing.tga'')) 0) = Some wing_tga_tex"
    using laat_bound(2) [OF l d o wing_tga_accepts_tga, of fresh_world]
    by (simp add: wing_scene_facts)
  have second: "mat_map (materials (applyTextureToMeshes accept_1x1 shared_meshes ''wing''
      wing_jpg_plain fresh_world) 0) = Some wing_jpg_plain"
    using fold_apply_named_bound [of "mesh_at 0 ''wing.tga''" shared_meshes "''wing.tga''"
        accept_1x1 "''wing''" wing_jpg_plain fresh_world] o
    by (simp add: applyTextureToMeshes_def wing_scene_facts b)
  from first second b show ?thesis
    by (simp add: wing_scene_facts fresh_world_def fresh_material_def)
qed

end
